theory Spec2Isabelle
  imports Complex_Main
begin

section \<open>Labels\<close>

text \<open>
  The scripts carry every label as a Python string: a tier word (\<open>STRONG\<close>, \<open>MEDIUM\<close>,
  \<open>MILD\<close>), a direction word (\<open>BULLISH\<close>, \<open>BEARISH\<close>), the two joined by one blank, or
  the word \<open>INDECISIVE\<close>. The functions below are therefore over \<open>string\<close>, as in the
  source. The datatypes \<open>tier\<close>, \<open>direction\<close> and \<open>label\<close> are the enumerated view that
  the specification takes of those strings; \<open>tier_str\<close>, \<open>direction_str\<close> and
  \<open>label_str\<close> give the string each value stands for.
\<close>

datatype tier = STRONG | MEDIUM | MILD

datatype direction = BULLISH | BEARISH

datatype label = Decisive tier direction | INDECISIVE

fun tier_str :: "tier \<Rightarrow> string" where
  "tier_str STRONG = ''STRONG''"
| "tier_str MEDIUM = ''MEDIUM''"
| "tier_str MILD = ''MILD''"

fun direction_str :: "direction \<Rightarrow> string" where
  "direction_str BULLISH = ''BULLISH''"
| "direction_str BEARISH = ''BEARISH''"

text \<open>The f-string \<open>f"{a} {b}"\<close>: the two words with one blank between them.\<close>

definition fmt2 :: "string \<Rightarrow> string \<Rightarrow> string" where
  "fmt2 a b = a @ '' '' @ b"

fun label_str :: "label \<Rightarrow> string" where
  "label_str (Decisive t d) = fmt2 (tier_str t) (direction_str d)"
| "label_str INDECISIVE = ''INDECISIVE''"

fun flip :: "direction \<Rightarrow> direction" where
  "flip BULLISH = BEARISH"
| "flip BEARISH = BULLISH"

fun flip_label :: "label \<Rightarrow> label" where
  "flip_label (Decisive t d) = Decisive t (flip d)"
| "flip_label INDECISIVE = INDECISIVE"

section \<open>The OI-by-change truth table\<close>

text \<open>
  \<open>truth_table\<close> is the dictionary literal of \<open>apply_truth_table\<close>
  (custom_percentile_method_2.py, lines 85-127), in the order of the source. The copies in
  fii_strength_calculator.py, fii_strength_calculator_3.py and in the respective-percentile
  script have the same 36 entries in the same order. No key occurs twice, so the first
  match of \<open>map_of\<close> is the dictionary's value.
\<close>

definition truth_table :: "((string \<times> string) \<times> string) list" where
  "truth_table = [
    ((''STRONG BULLISH'', ''STRONG BULLISH''), ''STRONG BULLISH''),
    ((''STRONG BULLISH'', ''MEDIUM BULLISH''), ''STRONG BULLISH''),
    ((''STRONG BULLISH'', ''MILD BULLISH''), ''STRONG BULLISH''),
    ((''STRONG BULLISH'', ''STRONG BEARISH''), ''INDECISIVE''),
    ((''STRONG BULLISH'', ''MEDIUM BEARISH''), ''INDECISIVE''),
    ((''STRONG BULLISH'', ''MILD BEARISH''), ''STRONG BULLISH''),

    ((''MEDIUM BULLISH'', ''STRONG BULLISH''), ''STRONG BULLISH''),
    ((''MEDIUM BULLISH'', ''MEDIUM BULLISH''), ''MEDIUM BULLISH''),
    ((''MEDIUM BULLISH'', ''MILD BULLISH''), ''MEDIUM BULLISH''),
    ((''MEDIUM BULLISH'', ''STRONG BEARISH''), ''INDECISIVE''),
    ((''MEDIUM BULLISH'', ''MEDIUM BEARISH''), ''INDECISIVE''),
    ((''MEDIUM BULLISH'', ''MILD BEARISH''), ''MEDIUM BULLISH''),

    ((''MILD BULLISH'', ''STRONG BULLISH''), ''MEDIUM BULLISH''),
    ((''MILD BULLISH'', ''MEDIUM BULLISH''), ''MILD BULLISH''),
    ((''MILD BULLISH'', ''MILD BULLISH''), ''MILD BULLISH''),
    ((''MILD BULLISH'', ''STRONG BEARISH''), ''MEDIUM BEARISH''),
    ((''MILD BULLISH'', ''MEDIUM BEARISH''), ''INDECISIVE''),
    ((''MILD BULLISH'', ''MILD BEARISH''), ''INDECISIVE''),

    ((''STRONG BEARISH'', ''STRONG BULLISH''), ''INDECISIVE''),
    ((''STRONG BEARISH'', ''MEDIUM BULLISH''), ''INDECISIVE''),
    ((''STRONG BEARISH'', ''MILD BULLISH''), ''STRONG BEARISH''),
    ((''STRONG BEARISH'', ''STRONG BEARISH''), ''STRONG BEARISH''),
    ((''STRONG BEARISH'', ''MEDIUM BEARISH''), ''STRONG BEARISH''),
    ((''STRONG BEARISH'', ''MILD BEARISH''), ''STRONG BEARISH''),

    ((''MEDIUM BEARISH'', ''STRONG BULLISH''), ''INDECISIVE''),
    ((''MEDIUM BEARISH'', ''MEDIUM BULLISH''), ''INDECISIVE''),
    ((''MEDIUM BEARISH'', ''MILD BULLISH''), ''MEDIUM BEARISH''),
    ((''MEDIUM BEARISH'', ''STRONG BEARISH''), ''STRONG BEARISH''),
    ((''MEDIUM BEARISH'', ''MEDIUM BEARISH''), ''MEDIUM BEARISH''),
    ((''MEDIUM BEARISH'', ''MILD BEARISH''), ''MEDIUM BEARISH''),

    ((''MILD BEARISH'', ''STRONG BULLISH''), ''MEDIUM BULLISH''),
    ((''MILD BEARISH'', ''MEDIUM BULLISH''), ''INDECISIVE''),
    ((''MILD BEARISH'', ''MILD BULLISH''), ''INDECISIVE''),
    ((''MILD BEARISH'', ''STRONG BEARISH''), ''MEDIUM BEARISH''),
    ((''MILD BEARISH'', ''MEDIUM BEARISH''), ''MILD BEARISH''),
    ((''MILD BEARISH'', ''MILD BEARISH''), ''MILD BEARISH'')]"

text \<open>\<open>d.get(k, default)\<close> of a dictionary literal.\<close>

definition dict_get :: "('k \<times> 'v) list \<Rightarrow> 'k \<Rightarrow> 'v \<Rightarrow> 'v" where
  "dict_get d k dflt = (case map_of d k of None \<Rightarrow> dflt | Some v \<Rightarrow> v)"

definition apply_truth_table :: "string \<Rightarrow> string \<Rightarrow> string \<Rightarrow> string \<Rightarrow> string" where
  "apply_truth_table oi_strength oi_direction change_strength change_direction =
     (let oi_combined = fmt2 oi_strength oi_direction;
          change_combined = fmt2 change_strength change_direction
      in dict_get truth_table (oi_combined, change_combined) ''INDECISIVE'')"

text \<open>
  The compatibility matrix as the specification prints it (section 4.3): rows are the OI
  label, columns the change label, in the order SB, MB, MLB, Sb, Mb, Mlb.
\<close>

fun spec_row :: "tier \<Rightarrow> direction \<Rightarrow> label list" where
  "spec_row STRONG BULLISH =
     [Decisive STRONG BULLISH, Decisive STRONG BULLISH, Decisive STRONG BULLISH,
      INDECISIVE, INDECISIVE, Decisive STRONG BULLISH]"
| "spec_row MEDIUM BULLISH =
     [Decisive STRONG BULLISH, Decisive MEDIUM BULLISH, Decisive MEDIUM BULLISH,
      INDECISIVE, INDECISIVE, Decisive MEDIUM BULLISH]"
| "spec_row MILD BULLISH =
     [Decisive MEDIUM BULLISH, Decisive MILD BULLISH, Decisive MILD BULLISH,
      Decisive MEDIUM BEARISH, INDECISIVE, INDECISIVE]"
| "spec_row STRONG BEARISH =
     [INDECISIVE, INDECISIVE, Decisive STRONG BEARISH,
      Decisive STRONG BEARISH, Decisive STRONG BEARISH, Decisive STRONG BEARISH]"
| "spec_row MEDIUM BEARISH =
     [INDECISIVE, INDECISIVE, Decisive MEDIUM BEARISH,
      Decisive STRONG BEARISH, Decisive MEDIUM BEARISH, Decisive MEDIUM BEARISH]"
| "spec_row MILD BEARISH =
     [Decisive MEDIUM BULLISH, INDECISIVE, INDECISIVE,
      Decisive MEDIUM BEARISH, Decisive MILD BEARISH, Decisive MILD BEARISH]"

fun spec_column :: "tier \<Rightarrow> direction \<Rightarrow> nat" where
  "spec_column STRONG BULLISH = 0"
| "spec_column MEDIUM BULLISH = 1"
| "spec_column MILD BULLISH = 2"
| "spec_column STRONG BEARISH = 3"
| "spec_column MEDIUM BEARISH = 4"
| "spec_column MILD BEARISH = 5"

definition spec_matrix :: "tier \<Rightarrow> direction \<Rightarrow> tier \<Rightarrow> direction \<Rightarrow> label" where
  "spec_matrix oi_t oi_d ch_t ch_d = spec_row oi_t oi_d ! spec_column ch_t ch_d"

definition tier_words :: "string set" where
  "tier_words = {''STRONG'', ''MEDIUM'', ''MILD''}"

definition direction_words :: "string set" where
  "direction_words = {''BULLISH'', ''BEARISH''}"


section \<open>Python values and errors\<close>

text \<open>
  Numbers are Python floats (and numpy floats) in the scripts. They are modelled as real
  numbers: comparisons are the source's comparisons, and arithmetic is exact, so rounding,
  infinities and NaN are outside the model.
\<close>

datatype error = IndexError | ZeroDivisionError

text \<open>
  \<open>xs[i]\<close> on a Python list: an index from \<open>-len(xs)\<close> to \<open>len(xs) - 1\<close> is accepted, a
  negative one counting from the end; any other index raises \<open>IndexError\<close>.
\<close>

definition list_item :: "'a list \<Rightarrow> int \<Rightarrow> error + 'a" where
  "list_item xs i =
     (if 0 \<le> i \<and> i < int (length xs) then Inr (xs ! nat i)
      else if i < 0 \<and> - int (length xs) \<le> i then Inr (xs ! nat (int (length xs) + i))
      else Inl IndexError)"

text \<open>Sequencing of computations that may raise: the first error is the result.\<close>

fun and_then :: "error + 'a \<Rightarrow> ('a \<Rightarrow> error + 'b) \<Rightarrow> error + 'b" where
  "and_then (Inl e) f = Inl e"
| "and_then (Inr v) f = f v"

section \<open>The percentile estimator\<close>

text \<open>
  \<open>get_threshold\<close> of custom_percentile_method_2.py (lines 31-41; fii_dii_helper_v2.py has
  the same body). \<open>divmod(t_pos, 1)\<close> is the floor and the fractional part of \<open>t_pos\<close>.
  In the interpolation branch Python evaluates \<open>sorted_list[t_pos_int]\<close>, then
  \<open>sorted_list[t_pos_int + 1]\<close>, then \<open>sorted_list[t_pos_int]\<close> again.
\<close>

definition get_threshold :: "real \<Rightarrow> real list \<Rightarrow> error + real" where
  "get_threshold percentile sorted_list =
     (let t_pos = (percentile / 100) * (real (length sorted_list) - 1);
          t_pos_int = \<lfloor>t_pos\<rfloor>;
          t_pos_frac = frac t_pos
      in if t_pos_frac = 0 then list_item sorted_list t_pos_int
         else and_then (list_item sorted_list t_pos_int) (\<lambda>lo.
              and_then (list_item sorted_list (t_pos_int + 1)) (\<lambda>hi.
              and_then (list_item sorted_list t_pos_int) (\<lambda>lo'.
                Inr (lo + t_pos_frac * (hi - lo'))))))"

text \<open>
  \<open>get_threshold\<close> of fii_strength_calculator_3.py (lines 109-126) and of the
  respective-percentile script (lines 122-139): the same computation behind two guards, one
  for samples of length at most one and one for a position at the last index.
\<close>

definition get_threshold_guarded :: "real \<Rightarrow> real list \<Rightarrow> error + real" where
  "get_threshold_guarded percentile sorted_list =
     (if sorted_list = [] \<or> length sorted_list \<le> 1
      then (if sorted_list \<noteq> [] then list_item sorted_list 0 else Inr 0)
      else
        let t_pos = (percentile / 100) * (real (length sorted_list) - 1);
            t_pos_int = \<lfloor>t_pos\<rfloor>;
            t_pos_frac = frac t_pos
        in if t_pos_int \<ge> int (length sorted_list) - 1 then list_item sorted_list (- 1)
           else if t_pos_frac = 0 then list_item sorted_list t_pos_int
           else and_then (list_item sorted_list t_pos_int) (\<lambda>lo.
                and_then (list_item sorted_list (t_pos_int + 1)) (\<lambda>hi.
                and_then (list_item sorted_list t_pos_int) (\<lambda>lo'.
                  Inr (lo + t_pos_frac * (hi - lo'))))))"

text \<open>
  The rank interpolation as the specification words it (section 4.1), at a position \<open>t\<close>:
  the element at the integer part when the fractional part is zero, the linear
  interpolation towards the next element otherwise.
\<close>

definition interpolate :: "real list \<Rightarrow> real \<Rightarrow> real" where
  "interpolate xs t =
     (let i = nat \<lfloor>t\<rfloor>; f = frac t
      in if f = 0 then xs ! i else xs ! i + f * (xs ! (i + 1) - xs ! i))"

definition position :: "real \<Rightarrow> real list \<Rightarrow> real" where
  "position p xs = (p / 100) * (real (length xs) - 1)"

text \<open>
  The threshold set of one sample pair, as \<open>calculate_combined_options_percentiles\<close>
  computes it once the OI values and the change values are collected
  (custom_percentile_method_2.py, lines 151-165): absolute values, sorted ascending, both
  samples required non-empty, then the percentiles 80 and 40 of the OI sample and 80 and 20
  of the change sample. \<open>None\<close> stands for the tuple of four \<open>None\<close>.
\<close>

definition threshold_set ::
  "real list \<Rightarrow> real list \<Rightarrow> error + (real \<times> real \<times> real \<times> real) option" where
  "threshold_set combined_oi_values combined_change_values =
     (let oi_sorted = sort (map abs combined_oi_values);
          change_sorted = sort (map abs combined_change_values)
      in if length oi_sorted = 0 \<or> length change_sorted = 0 then Inr None
         else and_then (get_threshold 80 oi_sorted) (\<lambda>oi_p80.
              and_then (get_threshold 40 oi_sorted) (\<lambda>oi_p40.
              and_then (get_threshold 80 change_sorted) (\<lambda>change_p80.
              and_then (get_threshold 20 change_sorted) (\<lambda>change_p20.
                Inr (Some (oi_p80, oi_p40, change_p80, change_p20)))))))"

section \<open>The segment classifier\<close>

text \<open>\<open>get_strength_level\<close> of custom_percentile_method_2.py (lines 43-62).\<close>

definition get_strength_level :: "real \<Rightarrow> real \<Rightarrow> real \<Rightarrow> bool \<Rightarrow> string" where
  "get_strength_level v percentile_80 percentile_40_20 is_change =
     (let abs_value = \<bar>v\<bar>
      in if is_change then
           (if abs_value \<ge> percentile_80 then ''STRONG''
            else if abs_value \<ge> percentile_40_20 then ''MEDIUM''
            else ''MILD'')
         else
           (if abs_value \<ge> percentile_80 then ''STRONG''
            else if abs_value \<ge> percentile_40_20 then ''MEDIUM''
            else ''MILD''))"

text \<open>
  \<open>get_strength_level\<close> of fii_strength_calculator_3.py (lines 128-138) and of the
  respective-percentile script (lines 141-151).
\<close>

definition get_strength_level_3 :: "real \<Rightarrow> real \<Rightarrow> real \<Rightarrow> bool \<Rightarrow> string" where
  "get_strength_level_3 v percentile_80 percentile_40_20 is_change =
     (let abs_value = \<bar>v\<bar>;
          threshold = (if \<not> is_change then percentile_40_20 else percentile_40_20)
      in if abs_value \<ge> percentile_80 then ''STRONG''
         else if abs_value \<ge> threshold then ''MEDIUM''
         else ''MILD'')"

text \<open>\<open>get_direction\<close> of custom_percentile_method_2.py (lines 64-75).\<close>

definition get_direction :: "real \<Rightarrow> string \<Rightarrow> string" where
  "get_direction v segment_type =
     (if segment_type \<in> set [''FUTURE_INDEX'', ''FUTURE-INDEX'', ''INDEX_FUTURES''] then
        (if v > 0 then ''BULLISH'' else ''BEARISH'')
      else if segment_type \<in> set [''CALL'', ''CALL_OPTIONS'', ''CALL_OI'', ''Call Options''] then
        (if v > 0 then ''BULLISH'' else ''BEARISH'')
      else if segment_type \<in> set [''PUT'', ''PUT_OPTIONS'', ''PUT_OI'', ''Put Options''] then
        (if v > 0 then ''BEARISH'' else ''BULLISH'')
      else
        (if v > 0 then ''BULLISH'' else ''BEARISH''))"

text \<open>\<open>s.startswith(sub)\<close> and the substring test \<open>sub in s\<close> on Python strings.\<close>

fun starts_with :: "string \<Rightarrow> string \<Rightarrow> bool" where
  "starts_with s [] = True"
| "starts_with [] (c # cs) = False"
| "starts_with (x # xs) (c # cs) = (x = c \<and> starts_with xs cs)"

fun str_contains :: "string \<Rightarrow> string \<Rightarrow> bool" where
  "str_contains [] sub = (sub = [])"
| "str_contains (x # xs) sub = (starts_with (x # xs) sub \<or> str_contains xs sub)"

text \<open>
  \<open>get_direction\<close> of the respective-percentile script (lines 153-158) and of
  fii_strength_calculator_3.py (lines 140-145).
\<close>

definition get_direction_respective :: "real \<Rightarrow> string \<Rightarrow> string" where
  "get_direction_respective v segment_name =
     (if str_contains segment_name ''Put Options'' then
        (if v > 0 then ''BEARISH'' else ''BULLISH'')
      else
        (if v > 0 then ''BULLISH'' else ''BEARISH''))"

text \<open>Swapping the two direction words.\<close>

definition negate :: "string \<Rightarrow> string" where
  "negate d = (if d = ''BULLISH'' then ''BEARISH'' else if d = ''BEARISH'' then ''BULLISH'' else d)"

section \<open>The net-options mapping\<close>

text \<open>
  \<open>s.split()\<close> on a Python string: the maximal runs of characters that are not white space.
  The white space characters of the ASCII range are the blank, the control characters 9 to
  13 and the separators 28 to 31.
\<close>

definition is_space :: "char \<Rightarrow> bool" where
  "is_space c = (of_char c \<in> set [32, 9, 10, 11, 12, 13, 28, 29, 30, 31 :: nat])"

fun split_words :: "string \<Rightarrow> string \<Rightarrow> string list" where
  "split_words w [] = (if w = [] then [] else [w])"
| "split_words w (c # cs) =
     (if is_space c then (if w = [] then split_words [] cs else w # split_words [] cs)
      else split_words (w @ [c]) cs)"

definition str_split :: "string \<Rightarrow> string list" where
  "str_split s = split_words [] s"

text \<open>\<open>parse_strength\<close> (fii_strength_calculator_3.py, lines 147-154).\<close>

definition parse_strength :: "string \<Rightarrow> string \<times> string" where
  "parse_strength strength_str =
     (if strength_str = ''INDECISIVE'' then (''INDECISIVE'', ''INDECISIVE'')
      else let parts = str_split strength_str
           in if length parts = 2 then (parts ! 0, parts ! 1)
              else (''INDECISIVE'', ''INDECISIVE''))"

text \<open>
  \<open>net_oi_mapping\<close> of \<open>calculate_strength_for_date\<close> in fii_strength_calculator_3.py
  (lines 251-294), in the order of the source; no key occurs twice.
\<close>

definition net_oi_mapping :: "(((string \<times> string) \<times> (string \<times> string)) \<times> (string \<times> string)) list" where
  "net_oi_mapping = [
    (((''MEDIUM'', ''BULLISH''), (''INDECISIVE'', ''INDECISIVE'')), (''MEDIUM'', ''BULLISH'')),
    (((''MEDIUM'', ''BULLISH''), (''MEDIUM'', ''BEARISH'')), (''INDECISIVE'', ''VOLATILE'')),
    (((''MEDIUM'', ''BULLISH''), (''MEDIUM'', ''BULLISH'')), (''MEDIUM'', ''BULLISH'')),
    (((''MEDIUM'', ''BULLISH''), (''STRONG'', ''BEARISH'')), (''MEDIUM'', ''BEARISH'')),
    (((''MEDIUM'', ''BULLISH''), (''STRONG'', ''BULLISH'')), (''STRONG'', ''BULLISH'')),
    (((''MEDIUM'', ''BULLISH''), (''MILD'', ''BEARISH'')), (''MEDIUM'', ''BULLISH'')),
    (((''MEDIUM'', ''BULLISH''), (''MILD'', ''BULLISH'')), (''MEDIUM'', ''BULLISH'')),
    (((''MEDIUM'', ''BEARISH''), (''INDECISIVE'', ''INDECISIVE'')), (''MEDIUM'', ''BEARISH'')),
    (((''MEDIUM'', ''BEARISH''), (''MEDIUM'', ''BEARISH'')), (''MEDIUM'', ''BEARISH'')),
    (((''MEDIUM'', ''BEARISH''), (''MEDIUM'', ''BULLISH'')), (''INDECISIVE'', ''NEUTRAL'')),
    (((''MEDIUM'', ''BEARISH''), (''STRONG'', ''BEARISH'')), (''STRONG'', ''BEARISH'')),
    (((''MEDIUM'', ''BEARISH''), (''STRONG'', ''BULLISH'')), (''STRONG'', ''BULLISH'')),
    (((''MEDIUM'', ''BEARISH''), (''MILD'', ''BEARISH'')), (''MEDIUM'', ''BEARISH'')),
    (((''MEDIUM'', ''BEARISH''), (''MILD'', ''BULLISH'')), (''MEDIUM'', ''BEARISH'')),
    (((''STRONG'', ''BULLISH''), (''INDECISIVE'', ''INDECISIVE'')), (''STRONG'', ''BULLISH'')),
    (((''STRONG'', ''BULLISH''), (''MEDIUM'', ''BEARISH'')), (''MEDIUM'', ''BULLISH'')),
    (((''STRONG'', ''BULLISH''), (''MEDIUM'', ''BULLISH'')), (''STRONG'', ''BULLISH'')),
    (((''STRONG'', ''BULLISH''), (''STRONG'', ''BEARISH'')), (''INDECISIVE'', ''VOLATILE'')),
    (((''STRONG'', ''BULLISH''), (''STRONG'', ''BULLISH'')), (''STRONG'', ''BULLISH'')),
    (((''STRONG'', ''BULLISH''), (''MILD'', ''BEARISH'')), (''STRONG'', ''BULLISH'')),
    (((''STRONG'', ''BULLISH''), (''MILD'', ''BULLISH'')), (''STRONG'', ''BULLISH'')),
    (((''STRONG'', ''BEARISH''), (''INDECISIVE'', ''INDECISIVE'')), (''STRONG'', ''BEARISH'')),
    (((''STRONG'', ''BEARISH''), (''MEDIUM'', ''BEARISH'')), (''STRONG'', ''BEARISH'')),
    (((''STRONG'', ''BEARISH''), (''MEDIUM'', ''BULLISH'')), (''MEDIUM'', ''BEARISH'')),
    (((''STRONG'', ''BEARISH''), (''STRONG'', ''BEARISH'')), (''STRONG'', ''BEARISH'')),
    (((''STRONG'', ''BEARISH''), (''STRONG'', ''BULLISH'')), (''INDECISIVE'', ''NEUTRAL'')),
    (((''STRONG'', ''BEARISH''), (''MILD'', ''BEARISH'')), (''STRONG'', ''BEARISH'')),
    (((''STRONG'', ''BEARISH''), (''MILD'', ''BULLISH'')), (''STRONG'', ''BEARISH'')),
    (((''MILD'', ''BULLISH''), (''INDECISIVE'', ''INDECISIVE'')), (''INDECISIVE'', ''INDECISIVE'')),
    (((''MILD'', ''BULLISH''), (''MEDIUM'', ''BEARISH'')), (''MILD'', ''BEARISH'')),
    (((''MILD'', ''BULLISH''), (''MEDIUM'', ''BULLISH'')), (''MEDIUM'', ''BULLISH'')),
    (((''MILD'', ''BULLISH''), (''STRONG'', ''BEARISH'')), (''STRONG'', ''BEARISH'')),
    (((''MILD'', ''BULLISH''), (''STRONG'', ''BULLISH'')), (''STRONG'', ''BULLISH'')),
    (((''MILD'', ''BULLISH''), (''MILD'', ''BEARISH'')), (''INDECISIVE'', ''INDECISIVE'')),
    (((''MILD'', ''BULLISH''), (''MILD'', ''BULLISH'')), (''MILD'', ''BULLISH'')),
    (((''MILD'', ''BEARISH''), (''INDECISIVE'', ''INDECISIVE'')), (''INDECISIVE'', ''INDECISIVE'')),
    (((''MILD'', ''BEARISH''), (''MEDIUM'', ''BEARISH'')), (''MEDIUM'', ''BEARISH'')),
    (((''MILD'', ''BEARISH''), (''MEDIUM'', ''BULLISH'')), (''MEDIUM'', ''BULLISH'')),
    (((''MILD'', ''BEARISH''), (''STRONG'', ''BEARISH'')), (''STRONG'', ''BEARISH'')),
    (((''MILD'', ''BEARISH''), (''STRONG'', ''BULLISH'')), (''STRONG'', ''BULLISH'')),
    (((''MILD'', ''BEARISH''), (''MILD'', ''BEARISH'')), (''INDECISIVE'', ''INDECISIVE'')),
    (((''MILD'', ''BEARISH''), (''MILD'', ''BULLISH'')), (''INDECISIVE'', ''INDECISIVE''))]"

text \<open>
  \<open>net_oi_mapping\<close> of \<open>calculate_strength_for_date\<close> in the respective-percentile script
  (lines 275-325), in the order of the source; no key occurs twice. It differs from the
  table above in the four conflicting pairs, whose first component is the tag word itself,
  and in the seven added rows for an INDECISIVE call label.
\<close>

definition net_oi_mapping_respective :: "(((string \<times> string) \<times> (string \<times> string)) \<times> (string \<times> string)) list" where
  "net_oi_mapping_respective = [
    (((''MEDIUM'', ''BULLISH''), (''INDECISIVE'', ''INDECISIVE'')), (''MEDIUM'', ''BULLISH'')),
    (((''MEDIUM'', ''BULLISH''), (''MEDIUM'', ''BEARISH'')), (''VOLATILE'', ''VOLATILE'')),
    (((''MEDIUM'', ''BULLISH''), (''MEDIUM'', ''BULLISH'')), (''MEDIUM'', ''BULLISH'')),
    (((''MEDIUM'', ''BULLISH''), (''STRONG'', ''BEARISH'')), (''MEDIUM'', ''BEARISH'')),
    (((''MEDIUM'', ''BULLISH''), (''STRONG'', ''BULLISH'')), (''STRONG'', ''BULLISH'')),
    (((''MEDIUM'', ''BULLISH''), (''MILD'', ''BEARISH'')), (''MEDIUM'', ''BULLISH'')),
    (((''MEDIUM'', ''BULLISH''), (''MILD'', ''BULLISH'')), (''MEDIUM'', ''BULLISH'')),
    (((''MEDIUM'', ''BEARISH''), (''INDECISIVE'', ''INDECISIVE'')), (''MEDIUM'', ''BEARISH'')),
    (((''MEDIUM'', ''BEARISH''), (''MEDIUM'', ''BEARISH'')), (''MEDIUM'', ''BEARISH'')),
    (((''MEDIUM'', ''BEARISH''), (''MEDIUM'', ''BULLISH'')), (''NEUTRAL'', ''NEUTRAL'')),
    (((''MEDIUM'', ''BEARISH''), (''STRONG'', ''BEARISH'')), (''STRONG'', ''BEARISH'')),
    (((''MEDIUM'', ''BEARISH''), (''STRONG'', ''BULLISH'')), (''STRONG'', ''BULLISH'')),
    (((''MEDIUM'', ''BEARISH''), (''MILD'', ''BEARISH'')), (''MEDIUM'', ''BEARISH'')),
    (((''MEDIUM'', ''BEARISH''), (''MILD'', ''BULLISH'')), (''MEDIUM'', ''BEARISH'')),
    (((''STRONG'', ''BULLISH''), (''INDECISIVE'', ''INDECISIVE'')), (''STRONG'', ''BULLISH'')),
    (((''STRONG'', ''BULLISH''), (''MEDIUM'', ''BEARISH'')), (''MEDIUM'', ''BULLISH'')),
    (((''STRONG'', ''BULLISH''), (''MEDIUM'', ''BULLISH'')), (''STRONG'', ''BULLISH'')),
    (((''STRONG'', ''BULLISH''), (''STRONG'', ''BEARISH'')), (''VOLATILE'', ''VOLATILE'')),
    (((''STRONG'', ''BULLISH''), (''STRONG'', ''BULLISH'')), (''STRONG'', ''BULLISH'')),
    (((''STRONG'', ''BULLISH''), (''MILD'', ''BEARISH'')), (''STRONG'', ''BULLISH'')),
    (((''STRONG'', ''BULLISH''), (''MILD'', ''BULLISH'')), (''STRONG'', ''BULLISH'')),
    (((''STRONG'', ''BEARISH''), (''INDECISIVE'', ''INDECISIVE'')), (''STRONG'', ''BEARISH'')),
    (((''STRONG'', ''BEARISH''), (''MEDIUM'', ''BEARISH'')), (''STRONG'', ''BEARISH'')),
    (((''STRONG'', ''BEARISH''), (''MEDIUM'', ''BULLISH'')), (''MEDIUM'', ''BEARISH'')),
    (((''STRONG'', ''BEARISH''), (''STRONG'', ''BEARISH'')), (''STRONG'', ''BEARISH'')),
    (((''STRONG'', ''BEARISH''), (''STRONG'', ''BULLISH'')), (''NEUTRAL'', ''NEUTRAL'')),
    (((''STRONG'', ''BEARISH''), (''MILD'', ''BEARISH'')), (''STRONG'', ''BEARISH'')),
    (((''STRONG'', ''BEARISH''), (''MILD'', ''BULLISH'')), (''STRONG'', ''BEARISH'')),
    (((''MILD'', ''BULLISH''), (''INDECISIVE'', ''INDECISIVE'')), (''INDECISIVE'', ''INDECISIVE'')),
    (((''MILD'', ''BULLISH''), (''MEDIUM'', ''BEARISH'')), (''MILD'', ''BEARISH'')),
    (((''MILD'', ''BULLISH''), (''MEDIUM'', ''BULLISH'')), (''MEDIUM'', ''BULLISH'')),
    (((''MILD'', ''BULLISH''), (''STRONG'', ''BEARISH'')), (''STRONG'', ''BEARISH'')),
    (((''MILD'', ''BULLISH''), (''STRONG'', ''BULLISH'')), (''STRONG'', ''BULLISH'')),
    (((''MILD'', ''BULLISH''), (''MILD'', ''BEARISH'')), (''INDECISIVE'', ''INDECISIVE'')),
    (((''MILD'', ''BULLISH''), (''MILD'', ''BULLISH'')), (''MILD'', ''BULLISH'')),
    (((''MILD'', ''BEARISH''), (''INDECISIVE'', ''INDECISIVE'')), (''INDECISIVE'', ''INDECISIVE'')),
    (((''MILD'', ''BEARISH''), (''MEDIUM'', ''BEARISH'')), (''MEDIUM'', ''BEARISH'')),
    (((''MILD'', ''BEARISH''), (''MEDIUM'', ''BULLISH'')), (''MEDIUM'', ''BULLISH'')),
    (((''MILD'', ''BEARISH''), (''STRONG'', ''BEARISH'')), (''STRONG'', ''BEARISH'')),
    (((''MILD'', ''BEARISH''), (''STRONG'', ''BULLISH'')), (''STRONG'', ''BULLISH'')),
    (((''MILD'', ''BEARISH''), (''MILD'', ''BEARISH'')), (''INDECISIVE'', ''INDECISIVE'')),
    (((''MILD'', ''BEARISH''), (''MILD'', ''BULLISH'')), (''INDECISIVE'', ''INDECISIVE'')),
    (((''INDECISIVE'', ''INDECISIVE''), (''INDECISIVE'', ''INDECISIVE'')), (''INDECISIVE'', ''INDECISIVE'')),
    (((''INDECISIVE'', ''INDECISIVE''), (''MEDIUM'', ''BEARISH'')), (''MEDIUM'', ''BEARISH'')),
    (((''INDECISIVE'', ''INDECISIVE''), (''MEDIUM'', ''BULLISH'')), (''MEDIUM'', ''BULLISH'')),
    (((''INDECISIVE'', ''INDECISIVE''), (''MILD'', ''BEARISH'')), (''INDECISIVE'', ''INDECISIVE'')),
    (((''INDECISIVE'', ''INDECISIVE''), (''MILD'', ''BULLISH'')), (''INDECISIVE'', ''INDECISIVE'')),
    (((''INDECISIVE'', ''INDECISIVE''), (''STRONG'', ''BEARISH'')), (''STRONG'', ''BEARISH'')),
    (((''INDECISIVE'', ''INDECISIVE''), (''STRONG'', ''BULLISH'')), (''STRONG'', ''BULLISH''))]"

text \<open>
  The net-options step of \<open>calculate_strength_for_date\<close>, once the call result and the put
  result of the institution are found (fii_strength_calculator_3.py, lines 345-350; the
  respective-percentile script, lines 379-384): the looked-up pair, and the string built
  from it. The mapping is a parameter, as the two scripts differ in nothing else here.
\<close>

definition net_tuple ::
  "(((string \<times> string) \<times> (string \<times> string)) \<times> (string \<times> string)) list
     \<Rightarrow> string \<Rightarrow> string \<Rightarrow> string \<times> string" where
  "net_tuple mapping call_final_strength put_final_strength =
     (let call_tuple = parse_strength call_final_strength;
          put_tuple = parse_strength put_final_strength
      in dict_get mapping (call_tuple, put_tuple) (''INDECISIVE'', ''INDECISIVE''))"

definition net_final ::
  "(((string \<times> string) \<times> (string \<times> string)) \<times> (string \<times> string)) list
     \<Rightarrow> string \<Rightarrow> string \<Rightarrow> string" where
  "net_final mapping call_final_strength put_final_strength =
     (case net_tuple mapping call_final_strength put_final_strength of
        (net_intensity, net_sentiment) \<Rightarrow>
          if net_sentiment \<noteq> ''INDECISIVE'' then fmt2 net_intensity net_sentiment
          else ''INDECISIVE'')"

section \<open>The backtest evaluator\<close>

text \<open>
  The expectation table of \<open>calculate_accuracy_summary\<close> (the respective-percentile script,
  lines 521-571), in the order of the source; no key occurs twice. Each value is the inner
  dictionary with the keys \<open>CLIENT\<close> and \<open>OTHER\<close>, built by \<open>exp_entry\<close>.
\<close>

definition exp_entry :: "string \<Rightarrow> string \<Rightarrow> (string \<times> string) list" where
  "exp_entry client other = [(''CLIENT'', client), (''OTHER'', other)]"

definition expectations :: "((string \<times> string) \<times> (string \<times> string) list) list" where
  "expectations = [
    ((''INDECISIVE'', ''MEDIUM BEARISH''), exp_entry ''FLAT OR UP'' ''DOWN''),
    ((''INDECISIVE'', ''MEDIUM BULLISH''), exp_entry ''FLAT OR DOWN'' ''FLAT OR UP''),
    ((''INDECISIVE'', ''MILD BEARISH''), exp_entry '''' ''''),
    ((''INDECISIVE'', ''MILD BULLISH''), exp_entry '''' ''''),
    ((''INDECISIVE'', ''STRONG BEARISH''), exp_entry ''FLAT OR UP'' ''DOWN''),
    ((''INDECISIVE'', ''STRONG BULLISH''), exp_entry ''DOWN'' ''FLAT OR UP''),
    ((''MEDIUM BEARISH'', ''INDECISIVE''), exp_entry ''FLAT OR UP'' ''DOWN''),
    ((''MEDIUM BEARISH'', ''MEDIUM BEARISH''), exp_entry ''FLAT OR UP'' ''DOWN''),
    ((''MEDIUM BEARISH'', ''MEDIUM BULLISH''), exp_entry ''VOLATILE'' ''NEUTRAL''),
    ((''MEDIUM BEARISH'', ''MILD BEARISH''), exp_entry ''FLAT OR UP'' ''FLAT OR DOWN''),
    ((''MEDIUM BEARISH'', ''MILD BULLISH''), exp_entry ''FLAT OR UP'' ''FLAT OR DOWN''),
    ((''MEDIUM BEARISH'', ''STRONG BEARISH''), exp_entry ''FLAT OR UP'' ''DOWN''),
    ((''MEDIUM BEARISH'', ''STRONG BULLISH''), exp_entry ''DOWN'' ''FLAT OR UP''),
    ((''MEDIUM BULLISH'', ''INDECISIVE''), exp_entry ''FLAT OR DOWN'' ''UP''),
    ((''MEDIUM BULLISH'', ''MEDIUM BEARISH''), exp_entry ''FLAT'' ''NEUTRAL''),
    ((''MEDIUM BULLISH'', ''MEDIUM BULLISH''), exp_entry ''FLAT OR DOWN'' ''UP''),
    ((''MEDIUM BULLISH'', ''MILD BEARISH''), exp_entry ''FLAT OR DOWN'' ''UP''),
    ((''MEDIUM BULLISH'', ''MILD BULLISH''), exp_entry ''FLAT OR DOWN'' ''UP''),
    ((''MEDIUM BULLISH'', ''STRONG BEARISH''), exp_entry ''FLAT OR UP'' ''DOWN''),
    ((''MEDIUM BULLISH'', ''STRONG BULLISH''), exp_entry ''DOWN'' ''FLAT OR UP''),
    ((''MILD BEARISH'', ''INDECISIVE''), exp_entry '''' ''''),
    ((''MILD BEARISH'', ''MEDIUM BEARISH''), exp_entry ''FLAT OR UP'' ''FLAT OR DOWN''),
    ((''MILD BEARISH'', ''MEDIUM BULLISH''), exp_entry ''FLAT OR DOWN'' ''FLAT OR UP''),
    ((''MILD BEARISH'', ''MILD BEARISH''), exp_entry '''' ''''),
    ((''MILD BEARISH'', ''MILD BULLISH''), exp_entry '''' ''''),
    ((''MILD BEARISH'', ''STRONG BEARISH''), exp_entry ''FLAT OR UP'' ''DOWN''),
    ((''MILD BEARISH'', ''STRONG BULLISH''), exp_entry ''DOWN'' ''FLAT OR UP''),
    ((''MILD BULLISH'', ''INDECISIVE''), exp_entry '''' ''''),
    ((''MILD BULLISH'', ''MEDIUM BEARISH''), exp_entry ''FLAT OR UP'' ''DOWN''),
    ((''MILD BULLISH'', ''MEDIUM BULLISH''), exp_entry ''FLAT OR DOWN'' ''FLAT OR UP''),
    ((''MILD BULLISH'', ''MILD BEARISH''), exp_entry '''' ''''),
    ((''MILD BULLISH'', ''MILD BULLISH''), exp_entry ''FLAT OR DOWN'' ''UP''),
    ((''MILD BULLISH'', ''STRONG BEARISH''), exp_entry ''FLAT OR UP'' ''DOWN''),
    ((''MILD BULLISH'', ''STRONG BULLISH''), exp_entry ''DOWN'' ''FLAT OR UP''),
    ((''STRONG BEARISH'', ''INDECISIVE''), exp_entry ''FLAT OR UP'' ''FLAT OR DOWN''),
    ((''STRONG BEARISH'', ''MEDIUM BEARISH''), exp_entry ''UP'' ''FLAT OR DOWN''),
    ((''STRONG BEARISH'', ''MEDIUM BULLISH''), exp_entry ''FLAT OR UP'' ''FLAT OR DOWN''),
    ((''STRONG BEARISH'', ''MILD BEARISH''), exp_entry ''UP'' ''FLAT OR DOWN''),
    ((''STRONG BEARISH'', ''MILD BULLISH''), exp_entry ''UP'' ''FLAT OR DOWN''),
    ((''STRONG BEARISH'', ''STRONG BEARISH''), exp_entry ''UP'' ''DOWN''),
    ((''STRONG BEARISH'', ''STRONG BULLISH''), exp_entry ''VOLATILE'' ''NEUTRAL''),
    ((''STRONG BULLISH'', ''INDECISIVE''), exp_entry ''FLAT OR DOWN'' ''UP''),
    ((''STRONG BULLISH'', ''MEDIUM BEARISH''), exp_entry ''FLAT OR DOWN'' ''UP''),
    ((''STRONG BULLISH'', ''MEDIUM BULLISH''), exp_entry ''FLAT OR DOWN'' ''UP''),
    ((''STRONG BULLISH'', ''MILD BEARISH''), exp_entry ''FLAT OR DOWN'' ''UP''),
    ((''STRONG BULLISH'', ''MILD BULLISH''), exp_entry ''FLAT OR DOWN'' ''UP''),
    ((''STRONG BULLISH'', ''STRONG BEARISH''), exp_entry ''FLAT'' ''VOLATILE''),
    ((''STRONG BULLISH'', ''STRONG BULLISH''), exp_entry ''DOWN'' ''UP''),
    ((''INDECISIVE'', ''INDECISIVE''), exp_entry '''' '''')]"

text \<open>The counters of one institution: the inner dictionary of \<open>counts\<close> (line 587).\<close>

record counts =
  correct :: nat
  wrong :: nat
  indecisive :: nat

definition zero_counts :: counts where
  "zero_counts = \<lparr>correct = 0, wrong = 0, indecisive = 0\<rparr>"

text \<open>
  The body of the institution loop (lines 611-662) for one institution, given the final
  strength of its call result and of its put result for the date (\<open>None\<close> when the result is
  missing), the threshold of the round and the next day's percentage change. It returns
  the counters of the institution after the iteration; a \<open>continue\<close> leaves the loop body
  with the counters as they are at that point. \<open>count\<close> is the final increment of lines
  659-662, applied to the value that the branch assigns to \<open>correct\<close>.
\<close>

definition score_institution ::
  "real \<Rightarrow> real \<Rightarrow> string \<Rightarrow> string option \<Rightarrow> string option \<Rightarrow> counts \<Rightarrow> counts" where
  "score_institution actual_threshold next_change_pct institution call_result put_result cnt =
     (case (call_result, put_result) of
        (Some call_strength, Some put_strength) \<Rightarrow>
          (let key = (call_strength, put_strength);
               exp = dict_get expectations key (exp_entry '''' '''');
               client_exp = dict_get exp ''CLIENT'' '''';
               other_exp = dict_get exp ''OTHER'' '''';
               is_client = (institution = ''CLIENT'');
               exp_str = (if is_client then client_exp else other_exp)
           in if exp_str = '''' then cnt\<lparr>indecisive := indecisive cnt + 1\<rparr>
              else
                let is_up = (next_change_pct > 0);
                    is_down = (next_change_pct < 0);
                    is_flat = (\<bar>next_change_pct\<bar> \<le> actual_threshold);
                    is_volatile = (\<bar>next_change_pct\<bar> > actual_threshold);
                    count = (\<lambda>is_correct. if is_correct then cnt\<lparr>correct := correct cnt + 1\<rparr>
                                          else cnt\<lparr>wrong := wrong cnt + 1\<rparr>)
                in if exp_str = ''UP'' then count is_up
                   else if exp_str = ''DOWN'' then count is_down
                   else if exp_str \<in> set [''FLAT'', ''NEUTRAL''] then count is_flat
                   else if exp_str = ''FLAT OR UP'' then
                     count (next_change_pct \<ge> - actual_threshold)
                   else if exp_str = ''FLAT OR DOWN'' then
                     count (next_change_pct \<le> actual_threshold)
                   else if exp_str = ''VOLATILE'' then count is_volatile
                   else cnt\<lparr>indecisive := indecisive cnt + 1\<rparr>)
      | _ \<Rightarrow> cnt)"

text \<open>
  The expectation string that the loop body derives for a pair of final strengths and an
  institution (lines 621-629): the \<open>CLIENT\<close> column for the institution CLIENT, the
  \<open>OTHER\<close> column for any other, and the empty string for a pair that is not in the table.
\<close>

definition exp_str_of :: "string \<Rightarrow> string \<Rightarrow> string \<Rightarrow> string" where
  "exp_str_of call_strength put_strength institution =
     (let exp = dict_get expectations (call_strength, put_strength) (exp_entry '''' '''')
      in if institution = ''CLIENT'' then dict_get exp ''CLIENT'' ''''
         else dict_get exp ''OTHER'' '''')"

text \<open>
  One result row of \<open>calculate_strength_for_date\<close>, and the lookup
  \<open>{r['segment']: r for r in results if r['institution'] == institution}.get(segment)\<close>
  of lines 611-613, where a later row replaces an earlier one of the same segment.
\<close>

record result =
  res_institution :: string
  res_segment :: string
  res_net_oi :: real
  res_change :: real
  final_strength :: string

definition inst_result :: "result list \<Rightarrow> string \<Rightarrow> string \<Rightarrow> result option" where
  "inst_result results institution segment =
     map_of (rev (map (\<lambda>r. (res_segment r, r))
                      (filter (\<lambda>r. res_institution r = institution) results))) segment"

definition institutions :: "string list" where
  "institutions = [''CLIENT'', ''PRO'', ''FII'']"

text \<open>
  The institution loop for one date (lines 610-662): \<open>counts\<close> maps each institution to its
  counters, and each iteration replaces the entry of its institution.
\<close>

definition score_date ::
  "real \<Rightarrow> real \<Rightarrow> result list \<Rightarrow> (string \<Rightarrow> counts) \<Rightarrow> (string \<Rightarrow> counts)" where
  "score_date actual_threshold next_change_pct results cnts =
     fold (\<lambda>institution c.
             c(institution :=
                 score_institution actual_threshold next_change_pct institution
                   (map_option final_strength (inst_result results institution ''Call Options''))
                   (map_option final_strength (inst_result results institution ''Put Options''))
                   (c institution)))
          institutions cnts"

text \<open>
  The percentage change of line 606. The closing prices are Python floats, so a current
  close of zero raises \<open>ZeroDivisionError\<close>.
\<close>

definition next_change_pct :: "real \<Rightarrow> real \<Rightarrow> error + real" where
  "next_change_pct next_nifty current_nifty =
     (if current_nifty = 0 then Inl ZeroDivisionError
      else Inr (((next_nifty - current_nifty) / current_nifty) * 100))"

text \<open>
  The date loop of one threshold round (lines 587-662) over the scored days: the dates of
  \<open>analysis_dates\<close>, oldest first, that have a next trading date and both closing prices,
  each with its closing price, the next closing price and the results of
  \<open>calculate_strength_for_date\<close>. An exception ends the loop, and with it the summary.
\<close>

fun date_loop ::
  "real \<Rightarrow> (real \<times> real \<times> result list) list \<Rightarrow> (string \<Rightarrow> counts)
     \<Rightarrow> error + (string \<Rightarrow> counts)" where
  "date_loop actual_threshold [] cnts = Inr cnts"
| "date_loop actual_threshold ((current_nifty, next_nifty, results) # days) cnts =
     and_then (next_change_pct next_nifty current_nifty) (\<lambda>pct.
       date_loop actual_threshold days (score_date actual_threshold pct results cnts))"

definition accuracy_counts ::
  "real \<Rightarrow> (real \<times> real \<times> result list) list \<Rightarrow> error + (string \<Rightarrow> counts)" where
  "accuracy_counts actual_threshold days = date_loop actual_threshold days (\<lambda>inst. zero_counts)"

text \<open>The reported percentage (lines 666-668).\<close>

definition correct_pct :: "counts \<Rightarrow> real" where
  "correct_pct cnt =
     (let c = correct cnt; w = wrong cnt; total_dec = c + w
      in if total_dec > 0 then real c / real total_dec * 100 else 0)"

text \<open>
  The threshold loop (lines 583-669): for each threshold a fresh round, and after it one
  report line per institution with the three counters and the percentage.
\<close>

definition thresholds :: "real list" where
  "thresholds = [2 / 10, 3 / 10, 4 / 10]"

definition report_lines :: "(string \<Rightarrow> counts) \<Rightarrow> (string \<times> nat \<times> nat \<times> nat \<times> real) list" where
  "report_lines cnts =
     map (\<lambda>inst. let cnt = cnts inst
                 in (inst, correct cnt, wrong cnt, indecisive cnt, correct_pct cnt))
         [''CLIENT'', ''PRO'', ''FII'']"

fun threshold_loop ::
  "real list \<Rightarrow> (real \<times> real \<times> result list) list
     \<Rightarrow> error + (real \<times> (string \<times> nat \<times> nat \<times> nat \<times> real) list) list" where
  "threshold_loop [] days = Inr []"
| "threshold_loop (actual_threshold # rest) days =
     and_then (accuracy_counts actual_threshold days) (\<lambda>cnts.
     and_then (threshold_loop rest days) (\<lambda>reports.
       Inr ((actual_threshold, report_lines cnts) # reports)))"

definition accuracy_summary ::
  "(real \<times> real \<times> result list) list
     \<Rightarrow> error + (real \<times> (string \<times> nat \<times> nat \<times> nat \<times> real) list) list" where
  "accuracy_summary days = threshold_loop thresholds days"

text \<open>
  The expectations as the specification names them (section 4.6), the string each stands
  for in the table, and the condition under which a prediction counts as correct for a
  forward return \<open>r\<close> and a movement threshold \<open>t\<close>.
\<close>

datatype expectation = UP | DOWN | FLAT | NEUTRAL | FLAT_OR_UP | FLAT_OR_DOWN | VOLATILE

fun expectation_str :: "expectation \<Rightarrow> string" where
  "expectation_str UP = ''UP''"
| "expectation_str DOWN = ''DOWN''"
| "expectation_str FLAT = ''FLAT''"
| "expectation_str NEUTRAL = ''NEUTRAL''"
| "expectation_str FLAT_OR_UP = ''FLAT OR UP''"
| "expectation_str FLAT_OR_DOWN = ''FLAT OR DOWN''"
| "expectation_str VOLATILE = ''VOLATILE''"

fun expected_holds :: "expectation \<Rightarrow> real \<Rightarrow> real \<Rightarrow> bool" where
  "expected_holds UP r t = (r > 0)"
| "expected_holds DOWN r t = (r < 0)"
| "expected_holds FLAT r t = (\<bar>r\<bar> \<le> t)"
| "expected_holds NEUTRAL r t = (\<bar>r\<bar> \<le> t)"
| "expected_holds FLAT_OR_UP r t = (r \<ge> - t)"
| "expected_holds FLAT_OR_DOWN r t = (r \<le> t)"
| "expected_holds VOLATILE r t = (\<bar>r\<bar> > t)"

section \<open>The window strategies\<close>

text \<open>
  A data frame is the list of its rows. A row has its date (a day number), its institution
  and the six value columns, where \<open>None\<close> stands for a missing value (NaN). \<open>unique\<close>
  keeps one copy of each date, and \<open>sorted(..., reverse=True)\<close> of distinct dates is the
  ascending sort reversed. \<open>dropna\<close> on a column keeps the rows that have a value there.
\<close>

record row =
  date :: int
  institution :: string
  FUTURE_INDEX :: "real option"
  FUTURE_INDEX_CHANGE :: "real option"
  CALL_OI :: "real option"
  CALL_OI_CHANGE :: "real option"
  PUT_OI :: "real option"
  PUT_OI_CHANGE :: "real option"

definition dropna :: "(row \<Rightarrow> real option) \<Rightarrow> row list \<Rightarrow> row list" where
  "dropna col rows = filter (\<lambda>r. col r \<noteq> None) rows"

text \<open>
  The per-date window of \<open>calculate_strength_for_date\<close> in custom_percentile_method_2.py
  (lines 178-187): the dates of the frame up to the target date, most recent first, cut to
  \<open>lookback_days\<close>, and the rows of the frame on those dates.
\<close>

definition lookback_dates :: "row list \<Rightarrow> int \<Rightarrow> nat \<Rightarrow> int list" where
  "lookback_dates df target_date lookback_days =
     (let all_dates_before_target = remdups (map date (filter (\<lambda>r. date r \<le> target_date) df));
          all_dates_before_target = rev (sort all_dates_before_target)
      in if length all_dates_before_target \<ge> lookback_days
         then take lookback_days all_dates_before_target
         else all_dates_before_target)"

definition historical_data :: "row list \<Rightarrow> int \<Rightarrow> nat \<Rightarrow> row list" where
  "historical_data df target_date lookback_days =
     filter (\<lambda>r. date r \<in> set (lookback_dates df target_date lookback_days)) df"

text \<open>
  The rows behind one sample of that script: the rows of the institution in the window
  (lines 135 and 251) that have a value in the column (lines 141-147, 258 and 266). The
  sample itself is the sorted list of the absolute values of the column on these rows; the
  combined options sample joins the rows of the call column and of the put column. With
  fewer than ten rows of the institution in the window no thresholds are computed at all
  (lines 137 and 253).
\<close>

definition rolling_sample ::
  "row list \<Rightarrow> int \<Rightarrow> nat \<Rightarrow> string \<Rightarrow> (row \<Rightarrow> real option) \<Rightarrow> row list" where
  "rolling_sample df target_date lookback_days inst col =
     (let hist_inst_data =
            filter (\<lambda>r. institution r = inst) (historical_data df target_date lookback_days)
      in dropna col hist_inst_data)"

text \<open>
  The window of the backtest, \<open>calculate_accuracy_summary\<close> in the respective-percentile
  script (lines 508-511): all dates of the frame, most recent first; the scored dates
  \<open>all_dates[1:lookback_days]\<close>; and the rows on the dates \<open>all_dates[:lookback_days]\<close>.
\<close>

definition all_dates :: "row list \<Rightarrow> int list" where
  "all_dates df = rev (sort (remdups (map date df)))"

definition analysis_dates :: "row list \<Rightarrow> nat \<Rightarrow> int list" where
  "analysis_dates df lookback_days = drop 1 (take lookback_days (all_dates df))"

definition accuracy_historical_data :: "row list \<Rightarrow> nat \<Rightarrow> row list" where
  "accuracy_historical_data df lookback_days =
     filter (\<lambda>r. date r \<in> set (take lookback_days (all_dates df))) df"

text \<open>
  The rows behind one sample of the backtest: before the loop over the scored dates, lines
  515-518 take the rows of each institution in that window, and
  \<open>calculate_respective_percentiles\<close> (lines 217-266) takes of them, column by column, the
  rows that have a value. The percentiles of a segment are computed when both of its
  samples are non-empty, and they are the ones that line 608 passes to
  \<open>calculate_strength_for_date\<close> for every scored date: the date loop of lines 591-608
  pairs each scored date, oldest first, with the same sample.
\<close>

definition accuracy_sample :: "row list \<Rightarrow> nat \<Rightarrow> string \<Rightarrow> (row \<Rightarrow> real option) \<Rightarrow> row list" where
  "accuracy_sample df lookback_days inst col =
     (let historical_data = accuracy_historical_data df lookback_days;
          inst_hist = filter (\<lambda>r. institution r = inst) historical_data;
          inst_data = filter (\<lambda>r. institution r = inst) inst_hist
      in dropna col inst_data)"

definition accuracy_applied_samples ::
  "row list \<Rightarrow> nat \<Rightarrow> string \<Rightarrow> (row \<Rightarrow> real option) \<Rightarrow> (int \<times> row list) list" where
  "accuracy_applied_samples df lookback_days inst col =
     (let sample = accuracy_sample df lookback_days inst col
      in map (\<lambda>scored_date. (scored_date, sample)) (rev (analysis_dates df lookback_days)))"

text \<open>A row with values in the two call columns only, for writing example frames.\<close>

definition call_row :: "int \<Rightarrow> string \<Rightarrow> real \<Rightarrow> row" where
  "call_row d inst v =
     \<lparr>date = d, institution = inst, FUTURE_INDEX = None, FUTURE_INDEX_CHANGE = None,
      CALL_OI = Some v, CALL_OI_CHANGE = Some 0, PUT_OI = None, PUT_OI_CHANGE = None\<rparr>"

section \<open>Properties of the truth table\<close>

lemma fmt2_label_words:
  "fmt2 a b \<in> {''STRONG BULLISH'', ''MEDIUM BULLISH'', ''MILD BULLISH'',
               ''STRONG BEARISH'', ''MEDIUM BEARISH'', ''MILD BEARISH''}
   \<Longrightarrow> a \<in> tier_words \<and> b \<in> direction_words"
  unfolding fmt2_def tier_words_def direction_words_def
  by (auto simp: append_eq_Cons_conv)

lemma truth_table_keys:
  assumes "map_of truth_table (k1, k2) = Some v"
  shows "k1 \<in> {''STRONG BULLISH'', ''MEDIUM BULLISH'', ''MILD BULLISH'',
               ''STRONG BEARISH'', ''MEDIUM BEARISH'', ''MILD BEARISH''}"
    and "k2 \<in> {''STRONG BULLISH'', ''MEDIUM BULLISH'', ''MILD BULLISH'',
               ''STRONG BEARISH'', ''MEDIUM BEARISH'', ''MILD BEARISH''}"
proof -
  from assms have mem: "((k1, k2), v) \<in> set truth_table"
    by (rule map_of_SomeD)
  from mem show "k1 \<in> {''STRONG BULLISH'', ''MEDIUM BULLISH'', ''MILD BULLISH'',
               ''STRONG BEARISH'', ''MEDIUM BEARISH'', ''MILD BEARISH''}"
    unfolding truth_table_def by auto
  from mem show "k2 \<in> {''STRONG BULLISH'', ''MEDIUM BULLISH'', ''MILD BULLISH'',
               ''STRONG BEARISH'', ''MEDIUM BEARISH'', ''MILD BEARISH''}"
    unfolding truth_table_def by auto
qed

lemma apply_truth_table_matrix:
  "apply_truth_table (tier_str t1) (direction_str d1) (tier_str t2) (direction_str d2)
     = label_str (spec_matrix t1 d1 t2 d2)"
  by (cases t1; cases d1; cases t2; cases d2)
     (simp_all add: apply_truth_table_def dict_get_def truth_table_def fmt2_def spec_matrix_def)

lemma apply_truth_table_outside:
  assumes "\<not> (a \<in> tier_words \<and> b \<in> direction_words \<and> c \<in> tier_words \<and> d \<in> direction_words)"
  shows "apply_truth_table a b c d = ''INDECISIVE''"
proof (cases "map_of truth_table (fmt2 a b, fmt2 c d)")
  case None
  then show ?thesis by (simp add: apply_truth_table_def dict_get_def)
next
  case (Some v)
  from truth_table_keys(1)[OF Some] have "a \<in> tier_words \<and> b \<in> direction_words"
    by (rule fmt2_label_words)
  moreover from truth_table_keys(2)[OF Some] have "c \<in> tier_words \<and> d \<in> direction_words"
    by (rule fmt2_label_words)
  ultimately show ?thesis using assms by blast
qed

lemma spec_matrix_flip:
  "spec_matrix t1 (flip d1) t2 (flip d2) = flip_label (spec_matrix t1 d1 t2 d2)"
  by (cases t1; cases d1; cases t2; cases d2) (simp_all add: spec_matrix_def)

lemma label_str_inj: "label_str l = label_str l' \<Longrightarrow> l = l'"
proof (cases l; cases l')
  fix t d t' d'
  assume "label_str l = label_str l'" "l = Decisive t d" "l' = Decisive t' d'"
  then show "l = l'"
    by (cases t; cases d; cases t'; cases d') (simp_all add: fmt2_def)
next
  fix t d
  assume "label_str l = label_str l'" "l = Decisive t d" "l' = INDECISIVE"
  then show "l = l'" by (cases t; cases d) (simp_all add: fmt2_def)
next
  fix t d
  assume "label_str l = label_str l'" "l = INDECISIVE" "l' = Decisive t d"
  then show "l = l'" by (cases t; cases d) (simp_all add: fmt2_def)
qed simp

text \<open>
  Claim C1. For every OI-level label and every change-level label, with tiers among STRONG,
  MEDIUM, MILD and directions among BULLISH, BEARISH, \<open>apply_truth_table\<close> returns the
  entry of the 6x6 compatibility matrix of section 4.3 of the specification; in particular
  (STRONG BULLISH, STRONG BULLISH) gives STRONG BULLISH and (STRONG BULLISH, STRONG BEARISH)
  gives INDECISIVE; and four argument strings that are not such a combination give
  INDECISIVE: the lookup has a default and no input raises.
\<close>

theorem apply_truth_table_spec_matrix:
  "apply_truth_table (tier_str t1) (direction_str d1) (tier_str t2) (direction_str d2)
     = label_str (spec_matrix t1 d1 t2 d2)
   \<and> apply_truth_table ''STRONG'' ''BULLISH'' ''STRONG'' ''BULLISH'' = ''STRONG BULLISH''
   \<and> apply_truth_table ''STRONG'' ''BULLISH'' ''STRONG'' ''BEARISH'' = ''INDECISIVE''
   \<and> (\<not> (a \<in> tier_words \<and> b \<in> direction_words \<and> c \<in> tier_words \<and> d \<in> direction_words)
        \<longrightarrow> apply_truth_table a b c d = ''INDECISIVE'')"
proof (intro conjI impI)
  show "apply_truth_table (tier_str t1) (direction_str d1) (tier_str t2) (direction_str d2)
     = label_str (spec_matrix t1 d1 t2 d2)"
    by (rule apply_truth_table_matrix)
  show "apply_truth_table ''STRONG'' ''BULLISH'' ''STRONG'' ''BULLISH'' = ''STRONG BULLISH''"
    using apply_truth_table_matrix [of STRONG BULLISH STRONG BULLISH]
    by (simp add: spec_matrix_def fmt2_def)
  show "apply_truth_table ''STRONG'' ''BULLISH'' ''STRONG'' ''BEARISH'' = ''INDECISIVE''"
    using apply_truth_table_matrix [of STRONG BULLISH STRONG BEARISH]
    by (simp add: spec_matrix_def fmt2_def)
next
  assume "\<not> (a \<in> tier_words \<and> b \<in> direction_words \<and> c \<in> tier_words \<and> d \<in> direction_words)"
  then show "apply_truth_table a b c d = ''INDECISIVE''"
    by (rule apply_truth_table_outside)
qed

theorem apply_truth_table_spec_matrix_witness:
  "apply_truth_table ''MILD'' ''BULLISH'' ''STRONG'' ''BEARISH'' = ''MEDIUM BEARISH''
   \<and> ''NONE'' \<notin> tier_words
   \<and> apply_truth_table ''NONE'' ''BULLISH'' ''STRONG'' ''BULLISH'' = ''INDECISIVE''"
  using apply_truth_table_spec_matrix
          [of MILD BULLISH STRONG BEARISH "''NONE''" "''BULLISH''" "''STRONG''" "''BULLISH''"]
  by (simp add: tier_words_def spec_matrix_def fmt2_def)

text \<open>
  Claim C10. The truth table is symmetric under a flip of both directions: for all tiers
  \<open>t1\<close>, \<open>t2\<close> and directions \<open>d1\<close>, \<open>d2\<close>, the result for the flipped directions is the
  result for \<open>d1\<close>, \<open>d2\<close> with its direction flipped, INDECISIVE staying INDECISIVE. The
  label \<open>l\<close> below is the one label whose string the table returns (\<open>label_str\<close> is
  injective).
\<close>

theorem apply_truth_table_flip:
  "\<exists>l. apply_truth_table (tier_str t1) (direction_str d1) (tier_str t2) (direction_str d2)
          = label_str l
      \<and> apply_truth_table (tier_str t1) (direction_str (flip d1))
                           (tier_str t2) (direction_str (flip d2))
          = label_str (flip_label l)"
proof (intro exI conjI)
  show "apply_truth_table (tier_str t1) (direction_str d1) (tier_str t2) (direction_str d2)
          = label_str (spec_matrix t1 d1 t2 d2)"
    by (rule apply_truth_table_matrix)
  show "apply_truth_table (tier_str t1) (direction_str (flip d1))
                          (tier_str t2) (direction_str (flip d2))
          = label_str (flip_label (spec_matrix t1 d1 t2 d2))"
    by (simp add: apply_truth_table_matrix spec_matrix_flip)
qed

section \<open>Properties of the percentile estimator\<close>

lemma list_item_nonneg:
  "0 \<le> i \<Longrightarrow> i < int (length xs) \<Longrightarrow> list_item xs i = Inr (xs ! nat i)"
  by (simp add: list_item_def)


lemma list_item_empty: "list_item [] i = Inl IndexError"
  by (simp add: list_item_def)

lemma position_bounds:
  assumes "xs \<noteq> []" "0 \<le> p" "p \<le> 100"
  shows "0 \<le> position p xs" "position p xs \<le> real (length xs) - 1"
proof -
  have n: "0 \<le> real (length xs) - 1" using assms(1) by (cases xs) simp_all
  show "0 \<le> position p xs" unfolding position_def using assms n by simp
  have "(p / 100) * (real (length xs) - 1) \<le> 1 * (real (length xs) - 1)"
    by (rule mult_right_mono) (use assms n in simp_all)
  then show "position p xs \<le> real (length xs) - 1" unfolding position_def by simp
qed

lemma floor_in_range:
  fixes t :: real
  assumes "0 \<le> t" "t \<le> real n - 1"
  shows "0 \<le> \<lfloor>t\<rfloor>" "\<lfloor>t\<rfloor> \<le> int n - 1" "frac t \<noteq> 0 \<Longrightarrow> \<lfloor>t\<rfloor> + 1 \<le> int n - 1"
proof -
  show "0 \<le> \<lfloor>t\<rfloor>" using assms(1) by simp
  have le: "\<lfloor>t\<rfloor> \<le> \<lfloor>real n - 1\<rfloor>" using assms(2) by (rule floor_mono)
  have eq: "\<lfloor>real n - 1\<rfloor> = int n - 1" by simp
  from le eq show b: "\<lfloor>t\<rfloor> \<le> int n - 1" by simp
  assume f: "frac t \<noteq> 0"
  have "\<lfloor>t\<rfloor> \<noteq> int n - 1"
  proof
    assume e: "\<lfloor>t\<rfloor> = int n - 1"
    have "of_int \<lfloor>t\<rfloor> \<le> t" by simp
    with e assms(2) have "t = real n - 1" by simp
    then have "frac t = 0" by (simp add: frac_def)
    with f show False by simp
  qed
  with b show "\<lfloor>t\<rfloor> + 1 \<le> int n - 1" by simp
qed

lemma get_threshold_interpolate:
  assumes "xs \<noteq> []" "0 \<le> p" "p \<le> 100"
  shows "get_threshold p xs = Inr (interpolate xs (position p xs))"
proof -
  let ?t = "position p xs"
  note pb = position_bounds[OF assms]
  note fl = floor_in_range[OF pb]
  have a: "list_item xs \<lfloor>?t\<rfloor> = Inr (xs ! nat \<lfloor>?t\<rfloor>)"
    using fl(1,2) by (intro list_item_nonneg) simp_all
  show ?thesis
  proof (cases "frac ?t = 0")
    case True
    then show ?thesis using a
      by (simp add: get_threshold_def interpolate_def position_def Let_def)
  next
    case False
    have b: "list_item xs (\<lfloor>?t\<rfloor> + 1) = Inr (xs ! (nat \<lfloor>?t\<rfloor> + 1))"
    proof -
      have "list_item xs (\<lfloor>?t\<rfloor> + 1) = Inr (xs ! nat (\<lfloor>?t\<rfloor> + 1))"
        using fl(1) fl(3)[OF False] by (intro list_item_nonneg) simp_all
      moreover have "nat (\<lfloor>?t\<rfloor> + 1) = nat \<lfloor>?t\<rfloor> + 1" using fl(1) by (simp add: nat_add_distrib)
      ultimately show ?thesis by simp
    qed
    from False a b show ?thesis
      unfolding get_threshold_def interpolate_def Let_def position_def[symmetric]
      by (simp add: position_def[symmetric])
  qed
qed


lemma interpolate_bounds:
  assumes "sorted xs" "0 \<le> t" "t \<le> real (length xs) - 1"
  shows "xs ! nat \<lfloor>t\<rfloor> \<le> interpolate xs t"
    and "frac t \<noteq> 0 \<Longrightarrow> interpolate xs t \<le> xs ! (nat \<lfloor>t\<rfloor> + 1)"
proof -
  note fl = floor_in_range[OF assms(2,3)]
  have step: "xs ! nat \<lfloor>t\<rfloor> \<le> xs ! (nat \<lfloor>t\<rfloor> + 1)" if "frac t \<noteq> 0"
  proof -
    from fl(3)[OF that] fl(1) have "nat \<lfloor>t\<rfloor> + 1 < length xs" by linarith
    with assms(1) show ?thesis by (simp add: sorted_nth_mono)
  qed
  have f: "0 \<le> frac t" "frac t < 1" by (simp_all add: frac_lt_1)
  show "xs ! nat \<lfloor>t\<rfloor> \<le> interpolate xs t"
  proof (cases "frac t = 0")
    case True then show ?thesis by (simp add: interpolate_def Let_def)
  next
    case False
    from step[OF False] f(1) have "0 \<le> frac t * (xs ! (nat \<lfloor>t\<rfloor> + 1) - xs ! nat \<lfloor>t\<rfloor>)"
      by simp
    with False show ?thesis by (simp add: interpolate_def Let_def)
  qed
  assume nz: "frac t \<noteq> 0"
  have "frac t * (xs ! (nat \<lfloor>t\<rfloor> + 1) - xs ! nat \<lfloor>t\<rfloor>)
          \<le> 1 * (xs ! (nat \<lfloor>t\<rfloor> + 1) - xs ! nat \<lfloor>t\<rfloor>)"
    by (rule mult_right_mono) (use f step[OF nz] in simp_all)
  with nz show "interpolate xs t \<le> xs ! (nat \<lfloor>t\<rfloor> + 1)" by (simp add: interpolate_def Let_def)
qed

lemma interpolate_mono:
  assumes s: "sorted xs" and t1: "0 \<le> t1" and le: "t1 \<le> t2" and t2: "t2 \<le> real (length xs) - 1"
  shows "interpolate xs t1 \<le> interpolate xs t2"
proof -
  have t1': "t1 \<le> real (length xs) - 1" and t2': "0 \<le> t2" using t1 le t2 by simp_all
  note fl1 = floor_in_range[OF t1 t1']
  note fl2 = floor_in_range[OF t2' t2]
  have fm: "\<lfloor>t1\<rfloor> \<le> \<lfloor>t2\<rfloor>" using le by (rule floor_mono)
  show ?thesis
  proof (cases "\<lfloor>t1\<rfloor> = \<lfloor>t2\<rfloor>")
    case True
    have fr: "frac t1 \<le> frac t2" using le True by (simp add: frac_def)
    show ?thesis
    proof (cases "frac t1 = 0")
      case f0: True
      then have "interpolate xs t1 = xs ! nat \<lfloor>t2\<rfloor>" by (simp add: interpolate_def Let_def True)
      also have "\<dots> \<le> interpolate xs t2" by (rule interpolate_bounds(1)[OF s t2' t2])
      finally show ?thesis .
    next
      case nz1: False
      have "0 \<le> frac t1" by simp
      with nz1 fr have nz2: "frac t2 \<noteq> 0" by linarith
      from fl2(3)[OF nz2] fl2(1) have "nat \<lfloor>t2\<rfloor> + 1 < length xs" by linarith
      with s have d: "0 \<le> xs ! (nat \<lfloor>t2\<rfloor> + 1) - xs ! nat \<lfloor>t2\<rfloor>"
        by (simp add: sorted_nth_mono)
      have "frac t1 * (xs ! (nat \<lfloor>t2\<rfloor> + 1) - xs ! nat \<lfloor>t2\<rfloor>)
              \<le> frac t2 * (xs ! (nat \<lfloor>t2\<rfloor> + 1) - xs ! nat \<lfloor>t2\<rfloor>)"
        using fr d by (rule mult_right_mono)
      with nz1 nz2 True show ?thesis by (simp add: interpolate_def Let_def)
    qed
  next
    case False
    with fm have lt: "\<lfloor>t1\<rfloor> < \<lfloor>t2\<rfloor>" by simp
    have idx: "nat \<lfloor>t1\<rfloor> + 1 \<le> nat \<lfloor>t2\<rfloor>" using lt fl1(1) by linarith
    have in2: "nat \<lfloor>t2\<rfloor> < length xs" using fl2(1,2) by linarith
    have a: "interpolate xs t1 \<le> xs ! (nat \<lfloor>t1\<rfloor> + 1)"
    proof (cases "frac t1 = 0")
      case True
      then have "interpolate xs t1 = xs ! nat \<lfloor>t1\<rfloor>" by (simp add: interpolate_def Let_def)
      also have "\<dots> \<le> xs ! (nat \<lfloor>t1\<rfloor> + 1)"
        using s idx in2 by (intro sorted_nth_mono) simp_all
      finally show ?thesis .
    next
      case False
      then show ?thesis by (rule interpolate_bounds(2)[OF s t1 t1'])
    qed
    also have "\<dots> \<le> xs ! nat \<lfloor>t2\<rfloor>" using s idx in2 by (rule sorted_nth_mono)
    also have "\<dots> \<le> interpolate xs t2" by (rule interpolate_bounds(1)[OF s t2' t2])
    finally show ?thesis .
  qed
qed

lemma position_mono:
  assumes "xs \<noteq> []" "p1 \<le> p2"
  shows "position p1 xs \<le> position p2 xs"
proof -
  have n: "0 \<le> real (length xs) - 1" using assms(1) by (cases xs) simp_all
  have "p1 / 100 \<le> p2 / 100" using assms(2) by simp
  then show ?thesis unfolding position_def using n by (rule mult_right_mono)
qed

lemma get_threshold_mono:
  assumes "sorted xs" "xs \<noteq> []" "0 \<le> p1" "p1 \<le> p2" "p2 \<le> 100"
  shows "\<exists>a b. get_threshold p1 xs = Inr a \<and> get_threshold p2 xs = Inr b \<and> a \<le> b"
proof -
  have p1: "p1 \<le> 100" and p2: "0 \<le> p2" using assms by simp_all
  have "interpolate xs (position p1 xs) \<le> interpolate xs (position p2 xs)"
    using assms(1) position_bounds(1)[OF assms(2,3) p1] position_mono[OF assms(2,4)]
          position_bounds(2)[OF assms(2) p2 assms(5)]
    by (rule interpolate_mono)
  then show ?thesis
    using get_threshold_interpolate[OF assms(2,3) p1] get_threshold_interpolate[OF assms(2) p2 assms(5)]
    by simp
qed



text \<open>
  Claim C6, as amended. On a sample of length zero the unguarded estimator
  (custom_percentile_method_2.py, fii_dii_helper_v2.py) fails for every percentile: the
  index it reads does not exist, and Python raises \<open>IndexError\<close>. The guarded estimator
  (fii_strength_calculator_3.py and the respective-percentile script) does not fail there:
  its first guard returns the number 0.
\<close>

theorem get_threshold_empty_sample:
  "get_threshold p [] = Inl IndexError \<and> get_threshold_guarded p [] = Inr 0"
  by (simp add: get_threshold_def get_threshold_guarded_def list_item_def Let_def)

text \<open>
  The claim as stated (every call on an empty sample fails, none returns a number) is
  false of the guarded estimator at percentile 80.
\<close>

theorem get_threshold_guarded_empty_counterexample:
  "get_threshold_guarded 80 [] = Inr 0 \<and> (\<forall>e. get_threshold_guarded 80 [] \<noteq> Inl e)"
  by (simp add: get_threshold_guarded_def)

lemma threshold_set_ordered:
  assumes "oi \<noteq> []" "ch \<noteq> []"
  shows "\<exists>a b c d. threshold_set oi ch = Inr (Some (a, b, c, d)) \<and> a \<ge> b \<and> c \<ge> d"
proof -
  let ?o = "sort (map abs oi)" and ?c = "sort (map abs ch)"
  have lo: "length ?o = length oi" and lc: "length ?c = length ch" by simp_all
  have so: "sorted ?o" "?o \<noteq> []"
  proof -
    show "sorted ?o" by simp
    from lo assms(1) show "?o \<noteq> []" by (metis length_0_conv)
  qed
  have sc: "sorted ?c" "?c \<noteq> []"
  proof -
    show "sorted ?c" by simp
    from lc assms(2) show "?c \<noteq> []" by (metis length_0_conv)
  qed
  from get_threshold_mono[OF so, of 40 80] obtain b a where
    o: "get_threshold 40 ?o = Inr b" "get_threshold 80 ?o = Inr a" "b \<le> a" by auto
  from get_threshold_mono[OF sc, of 20 80] obtain d c where
    c: "get_threshold 20 ?c = Inr d" "get_threshold 80 ?c = Inr c" "d \<le> c" by auto
  from so(2) sc(2) o c show ?thesis
    by (simp add: threshold_set_def Let_def)
qed

text \<open>
  Claim C7. On a non-empty sample sorted ascending, and for percentiles
  \<open>0 \<le> p1 \<le> p2 \<le> 100\<close>, the estimator returns at both percentiles and the value at \<open>p1\<close>
  is at most the value at \<open>p2\<close>. Consequently the threshold set computed from a non-empty
  OI sample and a non-empty change sample exists and has \<open>oi_p80 \<ge> oi_p40\<close> and
  \<open>change_p80 \<ge> change_p20\<close>.
\<close>

theorem get_threshold_monotone:
  "(sorted xs \<and> xs \<noteq> [] \<and> 0 \<le> p1 \<and> p1 \<le> p2 \<and> p2 \<le> 100 \<longrightarrow>
      (\<exists>a b. get_threshold p1 xs = Inr a \<and> get_threshold p2 xs = Inr b \<and> a \<le> b))
   \<and> (oi \<noteq> [] \<and> ch \<noteq> [] \<longrightarrow>
      (\<exists>oi_p80 oi_p40 change_p80 change_p20.
          threshold_set oi ch = Inr (Some (oi_p80, oi_p40, change_p80, change_p20))
          \<and> oi_p80 \<ge> oi_p40 \<and> change_p80 \<ge> change_p20))"
  using get_threshold_mono threshold_set_ordered by blast

theorem get_threshold_monotone_witness:
  "sorted [1, 2, 3, 4 :: real]
   \<and> (\<exists>a b. get_threshold 20 [1, 2, 3, 4] = Inr a \<and> get_threshold 80 [1, 2, 3, 4] = Inr b \<and> a \<le> b)
   \<and> (\<exists>a b c d. threshold_set [- 3, 1, 2] [5, - 4] = Inr (Some (a, b, c, d)) \<and> a \<ge> b \<and> c \<ge> d)"
  using get_threshold_monotone [of "[1, 2, 3, 4]" 20 80 "[- 3, 1, 2]" "[5, - 4]"]
  by simp

section \<open>Properties of the segment classifier\<close>

text \<open>
  Claim C8. The tier classifier returns STRONG when \<open>|value| \<ge> p80\<close>, MEDIUM when
  \<open>pLower \<le> |value| < p80\<close> and MILD otherwise; the \<open>is_change\<close> flag does not change the
  result, and the two variants of the classifier agree.
\<close>

theorem get_strength_level_cases:
  "(\<bar>v\<bar> \<ge> p80 \<longrightarrow> get_strength_level v p80 p_lower is_change = ''STRONG'')
   \<and> (p_lower \<le> \<bar>v\<bar> \<and> \<bar>v\<bar> < p80 \<longrightarrow> get_strength_level v p80 p_lower is_change = ''MEDIUM'')
   \<and> (\<bar>v\<bar> < p80 \<and> \<bar>v\<bar> < p_lower \<longrightarrow> get_strength_level v p80 p_lower is_change = ''MILD'')
   \<and> get_strength_level v p80 p_lower True = get_strength_level v p80 p_lower False
   \<and> get_strength_level_3 v p80 p_lower is_change = get_strength_level v p80 p_lower is_change"
  by (simp add: get_strength_level_def get_strength_level_3_def Let_def)

theorem get_strength_level_cases_witness:
  "get_strength_level 1200 1000 400 False = ''STRONG''
   \<and> get_strength_level 80 150 50 True = ''MEDIUM''
   \<and> get_strength_level (- 30) 150 50 True = ''MILD''"
  using get_strength_level_cases [of 1000 1200 400 False]
        get_strength_level_cases [of 150 80 50 True]
        get_strength_level_cases [of 150 "- 30" 50 True]
  by simp

text \<open>
  Claim C9. On the put segment the direction classifier returns the opposite of what it
  returns on the call segment: for puts a value above zero is BEARISH and any other value
  BULLISH; for calls and index futures a value above zero is BULLISH and any other value
  BEARISH; zero takes the not-above-zero branch. Both variants of the classifier behave so
  on the three segment names the scripts pass.
\<close>

theorem get_direction_put_negates_call:
  "get_direction v ''Put Options'' = negate (get_direction v ''Call Options'')
   \<and> get_direction v ''Put Options'' = (if v > 0 then ''BEARISH'' else ''BULLISH'')
   \<and> get_direction v ''Call Options'' = (if v > 0 then ''BULLISH'' else ''BEARISH'')
   \<and> get_direction v ''Index Futures'' = (if v > 0 then ''BULLISH'' else ''BEARISH'')
   \<and> get_direction 0 ''Put Options'' = ''BULLISH''
   \<and> get_direction 0 ''Call Options'' = ''BEARISH''
   \<and> get_direction 0 ''Index Futures'' = ''BEARISH''
   \<and> get_direction_respective v ''Put Options''
        = negate (get_direction_respective v ''Call Options'')
   \<and> get_direction_respective v ''Put Options'' = get_direction v ''Put Options''
   \<and> get_direction_respective v ''Call Options'' = get_direction v ''Call Options''
   \<and> get_direction_respective v ''Index Futures'' = get_direction v ''Index Futures''"
  by (simp add: get_direction_def get_direction_respective_def negate_def)

section \<open>Properties of the net-options mapping\<close>

lemma parse_strength_labels:
  "parse_strength ''INDECISIVE'' = (''INDECISIVE'', ''INDECISIVE'')"
  "parse_strength ''STRONG BULLISH'' = (''STRONG'', ''BULLISH'')"
  "parse_strength ''STRONG BEARISH'' = (''STRONG'', ''BEARISH'')"
  "parse_strength ''MEDIUM BULLISH'' = (''MEDIUM'', ''BULLISH'')"
  "parse_strength ''MEDIUM BEARISH'' = (''MEDIUM'', ''BEARISH'')"
  "parse_strength ''MILD BULLISH'' = (''MILD'', ''BULLISH'')"
  "parse_strength ''MILD BEARISH'' = (''MILD'', ''BEARISH'')"
  by (simp_all add: parse_strength_def str_split_def is_space_def)

lemma net_tuple_default:
  "map_of m (parse_strength c, parse_strength p) = None
     \<Longrightarrow> net_tuple m c p = (''INDECISIVE'', ''INDECISIVE'') \<and> net_final m c p = ''INDECISIVE''"
  by (simp add: net_tuple_def net_final_def dict_get_def)

text \<open>
  Claim C2, as amended. In fii_strength_calculator_3.py the net-options lookup returns the
  anchor values of section 4.4 of the specification: (MEDIUM BULLISH, INDECISIVE) gives
  MEDIUM BULLISH; (MEDIUM BULLISH, MEDIUM BEARISH) and (STRONG BULLISH, STRONG BEARISH) give
  tier INDECISIVE with tag VOLATILE; (MEDIUM BEARISH, MEDIUM BULLISH) gives tier INDECISIVE
  with tag NEUTRAL; (MILD BULLISH, MILD BEARISH) and (INDECISIVE, INDECISIVE) give plain
  INDECISIVE. In the respective-percentile script the same pairs give the same tag, but the
  tier component of the three conflicting anchors is the tag word (VOLATILE, NEUTRAL) and
  not INDECISIVE. In both scripts a pair absent from the table gives INDECISIVE.
\<close>

theorem net_oi_mapping_anchors:
  "net_tuple net_oi_mapping ''MEDIUM BULLISH'' ''INDECISIVE'' = (''MEDIUM'', ''BULLISH'')
   \<and> net_tuple net_oi_mapping ''MEDIUM BULLISH'' ''MEDIUM BEARISH'' = (''INDECISIVE'', ''VOLATILE'')
   \<and> net_tuple net_oi_mapping ''STRONG BULLISH'' ''STRONG BEARISH'' = (''INDECISIVE'', ''VOLATILE'')
   \<and> net_tuple net_oi_mapping ''MEDIUM BEARISH'' ''MEDIUM BULLISH'' = (''INDECISIVE'', ''NEUTRAL'')
   \<and> net_tuple net_oi_mapping ''MILD BULLISH'' ''MILD BEARISH'' = (''INDECISIVE'', ''INDECISIVE'')
   \<and> net_tuple net_oi_mapping ''INDECISIVE'' ''INDECISIVE'' = (''INDECISIVE'', ''INDECISIVE'')
   \<and> net_tuple net_oi_mapping_respective ''MEDIUM BULLISH'' ''INDECISIVE'' = (''MEDIUM'', ''BULLISH'')
   \<and> net_tuple net_oi_mapping_respective ''MEDIUM BULLISH'' ''MEDIUM BEARISH''
        = (''VOLATILE'', ''VOLATILE'')
   \<and> net_tuple net_oi_mapping_respective ''STRONG BULLISH'' ''STRONG BEARISH''
        = (''VOLATILE'', ''VOLATILE'')
   \<and> net_tuple net_oi_mapping_respective ''MEDIUM BEARISH'' ''MEDIUM BULLISH''
        = (''NEUTRAL'', ''NEUTRAL'')
   \<and> net_tuple net_oi_mapping_respective ''MILD BULLISH'' ''MILD BEARISH''
        = (''INDECISIVE'', ''INDECISIVE'')
   \<and> net_tuple net_oi_mapping_respective ''INDECISIVE'' ''INDECISIVE''
        = (''INDECISIVE'', ''INDECISIVE'')
   \<and> (m \<in> {net_oi_mapping, net_oi_mapping_respective}
        \<and> map_of m (parse_strength c, parse_strength p) = None
      \<longrightarrow> net_tuple m c p = (''INDECISIVE'', ''INDECISIVE'') \<and> net_final m c p = ''INDECISIVE'')"
proof -
  have a: "net_tuple net_oi_mapping ''MEDIUM BULLISH'' ''INDECISIVE'' = (''MEDIUM'', ''BULLISH'')"
    "net_tuple net_oi_mapping ''MEDIUM BULLISH'' ''MEDIUM BEARISH'' = (''INDECISIVE'', ''VOLATILE'')"
    "net_tuple net_oi_mapping ''STRONG BULLISH'' ''STRONG BEARISH'' = (''INDECISIVE'', ''VOLATILE'')"
    "net_tuple net_oi_mapping ''MEDIUM BEARISH'' ''MEDIUM BULLISH'' = (''INDECISIVE'', ''NEUTRAL'')"
    "net_tuple net_oi_mapping ''MILD BULLISH'' ''MILD BEARISH'' = (''INDECISIVE'', ''INDECISIVE'')"
    "net_tuple net_oi_mapping ''INDECISIVE'' ''INDECISIVE'' = (''INDECISIVE'', ''INDECISIVE'')"
    by (simp_all add: net_tuple_def parse_strength_labels dict_get_def net_oi_mapping_def)
  have b: "net_tuple net_oi_mapping_respective ''MEDIUM BULLISH'' ''INDECISIVE'' = (''MEDIUM'', ''BULLISH'')"
    "net_tuple net_oi_mapping_respective ''MEDIUM BULLISH'' ''MEDIUM BEARISH'' = (''VOLATILE'', ''VOLATILE'')"
    "net_tuple net_oi_mapping_respective ''STRONG BULLISH'' ''STRONG BEARISH'' = (''VOLATILE'', ''VOLATILE'')"
    "net_tuple net_oi_mapping_respective ''MEDIUM BEARISH'' ''MEDIUM BULLISH'' = (''NEUTRAL'', ''NEUTRAL'')"
    "net_tuple net_oi_mapping_respective ''MILD BULLISH'' ''MILD BEARISH'' = (''INDECISIVE'', ''INDECISIVE'')"
    "net_tuple net_oi_mapping_respective ''INDECISIVE'' ''INDECISIVE'' = (''INDECISIVE'', ''INDECISIVE'')"
    by (simp_all add: net_tuple_def parse_strength_labels dict_get_def net_oi_mapping_respective_def)
  from a b net_tuple_default [of m c p] show ?thesis by blast
qed

theorem net_oi_mapping_anchors_witness:
  "map_of net_oi_mapping (parse_strength ''INDECISIVE'', parse_strength ''MILD BEARISH'') = None
   \<and> net_tuple net_oi_mapping ''INDECISIVE'' ''MILD BEARISH'' = (''INDECISIVE'', ''INDECISIVE'')
   \<and> net_final net_oi_mapping ''INDECISIVE'' ''MILD BEARISH'' = ''INDECISIVE''"
proof -
  have none: "map_of net_oi_mapping (parse_strength ''INDECISIVE'', parse_strength ''MILD BEARISH'') = None"
    by (simp add: parse_strength_labels net_oi_mapping_def)
  with net_oi_mapping_anchors [of net_oi_mapping "''INDECISIVE''" "''MILD BEARISH''"]
  show ?thesis by simp
qed

text \<open>
  The claim as stated (tier INDECISIVE with tag VOLATILE for (MEDIUM BULLISH, MEDIUM
  BEARISH)) is false of the table of the respective-percentile script: the tier component
  is VOLATILE, and the net label built from it is the string VOLATILE VOLATILE.
\<close>

theorem net_oi_mapping_respective_counterexample:
  "net_tuple net_oi_mapping_respective ''MEDIUM BULLISH'' ''MEDIUM BEARISH''
     \<noteq> (''INDECISIVE'', ''VOLATILE'')
   \<and> fst (net_tuple net_oi_mapping_respective ''MEDIUM BULLISH'' ''MEDIUM BEARISH'') = ''VOLATILE''
   \<and> net_final net_oi_mapping_respective ''MEDIUM BULLISH'' ''MEDIUM BEARISH''
        = ''VOLATILE VOLATILE''"
  by (simp add: net_final_def net_tuple_def parse_strength_labels dict_get_def
        net_oi_mapping_respective_def fmt2_def)

section \<open>Properties of the backtest evaluator\<close>

lemma expectations_values:
  "\<forall>kv \<in> set expectations.
      dict_get (snd kv) ''CLIENT'' '''' \<in> insert '''' (range expectation_str)
    \<and> dict_get (snd kv) ''OTHER'' '''' \<in> insert '''' (range expectation_str)"
proof -
  have r: "''UP'' \<in> range expectation_str" "''DOWN'' \<in> range expectation_str"
    "''FLAT'' \<in> range expectation_str" "''NEUTRAL'' \<in> range expectation_str"
    "''FLAT OR UP'' \<in> range expectation_str" "''FLAT OR DOWN'' \<in> range expectation_str"
    "''VOLATILE'' \<in> range expectation_str"
    using expectation_str.simps by (metis rangeI)+
  show ?thesis
    by (simp add: expectations_def exp_entry_def dict_get_def r)
qed

lemma exp_str_of_range:
  "exp_str_of c p inst = '''' \<or> (\<exists>x. exp_str_of c p inst = expectation_str x)"
proof (cases "map_of expectations (c, p)")
  case None
  then show ?thesis by (simp add: exp_str_of_def dict_get_def exp_entry_def Let_def)
next
  case (Some v)
  then have "((c, p), v) \<in> set expectations" by (rule map_of_SomeD)
  with expectations_values have
    "dict_get v ''CLIENT'' '''' \<in> insert '''' (range expectation_str)
     \<and> dict_get v ''OTHER'' '''' \<in> insert '''' (range expectation_str)"
    by fastforce
  moreover have "exp_str_of c p inst =
      (if inst = ''CLIENT'' then dict_get v ''CLIENT'' '''' else dict_get v ''OTHER'' '''')"
    using Some by (simp add: exp_str_of_def dict_get_def)
  ultimately show ?thesis by auto
qed

lemma score_institution_expected:
  assumes "exp_str_of c p inst = expectation_str x"
  shows "score_institution t r inst (Some c) (Some p) cnt =
           (if expected_holds x r t then cnt\<lparr>correct := correct cnt + 1\<rparr>
            else cnt\<lparr>wrong := wrong cnt + 1\<rparr>)"
proof -
  have e: "(if inst = ''CLIENT''
            then dict_get (dict_get expectations (c, p) (exp_entry '''' '''')) ''CLIENT'' ''''
            else dict_get (dict_get expectations (c, p) (exp_entry '''' '''')) ''OTHER'' '''')
           = expectation_str x"
    using assms by (simp add: exp_str_of_def Let_def)
  show ?thesis
    unfolding score_institution_def Let_def prod.case option.case e
    by (cases x) simp_all
qed

lemma score_institution_empty:
  assumes "exp_str_of c p inst = ''''"
  shows "score_institution t r inst (Some c) (Some p) cnt = cnt\<lparr>indecisive := indecisive cnt + 1\<rparr>"
proof -
  have e: "(if inst = ''CLIENT''
            then dict_get (dict_get expectations (c, p) (exp_entry '''' '''')) ''CLIENT'' ''''
            else dict_get (dict_get expectations (c, p) (exp_entry '''' '''')) ''OTHER'' '''')
           = ''''"
    using assms by (simp add: exp_str_of_def Let_def)
  show ?thesis
    unfolding score_institution_def Let_def prod.case option.case e
    by simp
qed

lemma score_date_institution:
  "score_date t r results cnts inst =
     (if inst \<in> set institutions
      then score_institution t r inst
             (map_option final_strength (inst_result results inst ''Call Options''))
             (map_option final_strength (inst_result results inst ''Put Options''))
             (cnts inst)
      else cnts inst)"
  by (simp add: score_date_def institutions_def)

lemma expectation_str_inj: "expectation_str x = expectation_str y \<Longrightarrow> x = y"
  by (cases x; cases y) simp_all

lemma date_loop_snoc:
  "date_loop t (days @ [(cur, nxt, results)]) cnts =
     (case date_loop t days cnts of
        Inl e \<Rightarrow> Inl e
      | Inr c \<Rightarrow> if cur = 0 then Inl ZeroDivisionError
                 else Inr (score_date t ((nxt - cur) / cur * 100) results c))"
proof (induction days arbitrary: cnts)
  case Nil
  show ?case by (simp add: next_change_pct_def)
next
  case (Cons day days)
  obtain c n rs where day: "day = (c, n, rs)" by (cases day)
  show ?case
  proof (cases "c = 0")
    case True
    then show ?thesis by (simp add: day next_change_pct_def)
  next
    case False
    then show ?thesis using Cons.IH by (simp add: day next_change_pct_def)
  qed
qed

lemma date_loop_returns:
  "\<forall>day \<in> set days. fst day \<noteq> 0 \<Longrightarrow> \<exists>c. date_loop t days cnts = Inr c"
proof (induction days arbitrary: cnts)
  case Nil
  show ?case by simp
next
  case (Cons day days)
  obtain c n rs where day: "day = (c, n, rs)" by (cases day)
  with Cons.prems have "c \<noteq> 0" and "\<forall>day \<in> set days. fst day \<noteq> 0" by simp_all
  then show ?case using Cons.IH by (simp add: day next_change_pct_def)
qed

lemma date_loop_raises:
  "\<exists>day \<in> set days. fst day = 0 \<Longrightarrow> date_loop t days cnts = Inl ZeroDivisionError"
proof (induction days arbitrary: cnts)
  case Nil
  then show ?case by simp
next
  case (Cons day days)
  obtain c n rs where day: "day = (c, n, rs)" by (cases day)
  show ?case
  proof (cases "c = 0")
    case True
    then show ?thesis by (simp add: day next_change_pct_def)
  next
    case False
    with Cons.prems day have "\<exists>day \<in> set days. fst day = 0" by simp
    then have "\<And>cnts. date_loop t days cnts = Inl ZeroDivisionError" by (rule Cons.IH)
    with False show ?thesis by (simp add: day next_change_pct_def)
  qed
qed

lemma report_lines_eq:
  "report_lines cnts =
     map (\<lambda>inst. (inst, correct (cnts inst), wrong (cnts inst), indecisive (cnts inst),
                  if correct (cnts inst) + wrong (cnts inst) = 0 then 0
                  else real (correct (cnts inst))
                         / real (correct (cnts inst) + wrong (cnts inst)) * 100))
         [''CLIENT'', ''PRO'', ''FII'']"
  by (simp add: report_lines_def correct_pct_def Let_def)

lemma accuracy_summary_rounds:
  "accuracy_summary days =
     (case accuracy_counts (2 / 10) days of
        Inl e \<Rightarrow> Inl e
      | Inr c2 \<Rightarrow>
          (case accuracy_counts (3 / 10) days of
             Inl e \<Rightarrow> Inl e
           | Inr c3 \<Rightarrow>
               (case accuracy_counts (4 / 10) days of
                  Inl e \<Rightarrow> Inl e
                | Inr c4 \<Rightarrow>
                    Inr [(2 / 10, report_lines c2), (3 / 10, report_lines c3),
                         (4 / 10, report_lines c4)])))"
  by (simp add: accuracy_summary_def thresholds_def split: sum.splits)

text \<open>
  Claim C3. For a scored date and an institution with a call and a put label: when the
  expectation string for the label pair and the institution class is empty, the step adds
  one to the indecisive count and nothing else; otherwise the string is one of UP, DOWN,
  FLAT, NEUTRAL, FLAT OR UP, FLAT OR DOWN, VOLATILE and, for the threshold \<open>t\<close> of the
  round, the step adds one to the correct count exactly when the condition of that
  expectation holds for the next day's return, and one to the wrong count otherwise. A
  date is scored by that step for each of CLIENT, PRO and FII on the counters of that
  institution. A round at threshold \<open>t\<close> starts from counters that are all zero and scores
  the days in order at \<open>t\<close>, with the return \<open>(closeNext - close) / close * 100\<close>; it ends
  with the counters when no close is zero and with \<open>ZeroDivisionError\<close> when one is. The
  summary is the three rounds at 0.2, 0.3 and 0.4, and reports for each round and each
  institution the three counters of that round and the percentage
  \<open>correct / (correct + wrong) * 100\<close>, which is 0 when \<open>correct + wrong\<close> is 0.
\<close>

theorem backtest_scoring:
  "(exp_str_of c p inst = '''' \<longrightarrow>
      score_institution t r inst (Some c) (Some p) cnt = cnt\<lparr>indecisive := indecisive cnt + 1\<rparr>)
   \<and> (exp_str_of c p inst \<noteq> '''' \<longrightarrow>
      (\<exists>x. exp_str_of c p inst = expectation_str x
          \<and> score_institution t r inst (Some c) (Some p) cnt =
              (if expected_holds x r t then cnt\<lparr>correct := correct cnt + 1\<rparr>
               else cnt\<lparr>wrong := wrong cnt + 1\<rparr>)))
   \<and> score_date t r results cnts inst =
       (if inst \<in> {''CLIENT'', ''PRO'', ''FII''}
        then score_institution t r inst
               (map_option final_strength (inst_result results inst ''Call Options''))
               (map_option final_strength (inst_result results inst ''Put Options''))
               (cnts inst)
        else cnts inst)
   \<and> accuracy_counts t [] = Inr (\<lambda>inst. zero_counts)
   \<and> accuracy_counts t (days @ [(cur, nxt, results)]) =
       (case accuracy_counts t days of
          Inl e \<Rightarrow> Inl e
        | Inr cs \<Rightarrow> if cur = 0 then Inl ZeroDivisionError
                    else Inr (score_date t ((nxt - cur) / cur * 100) results cs))
   \<and> ((\<forall>day \<in> set days. fst day \<noteq> 0) \<longrightarrow>
        (\<exists>c2 c3 c4.
            accuracy_counts (2 / 10) days = Inr c2
          \<and> accuracy_counts (3 / 10) days = Inr c3
          \<and> accuracy_counts (4 / 10) days = Inr c4
          \<and> accuracy_summary days =
              Inr (map (\<lambda>(threshold, cs).
                          (threshold,
                           map (\<lambda>i. (i, correct (cs i), wrong (cs i), indecisive (cs i),
                                      if correct (cs i) + wrong (cs i) = 0 then 0
                                      else real (correct (cs i))
                                             / real (correct (cs i) + wrong (cs i)) * 100))
                               [''CLIENT'', ''PRO'', ''FII'']))
                       [(2 / 10, c2), (3 / 10, c3), (4 / 10, c4)])))
   \<and> ((\<exists>day \<in> set days. fst day = 0) \<longrightarrow>
        accuracy_counts t days = Inl ZeroDivisionError
        \<and> accuracy_summary days = Inl ZeroDivisionError)"
proof (intro conjI impI)
  assume "exp_str_of c p inst = ''''"
  then show "score_institution t r inst (Some c) (Some p) cnt
               = cnt\<lparr>indecisive := indecisive cnt + 1\<rparr>"
    by (rule score_institution_empty)
next
  assume "exp_str_of c p inst \<noteq> ''''"
  with exp_str_of_range [of c p inst] obtain x where "exp_str_of c p inst = expectation_str x"
    by blast
  then show "\<exists>x. exp_str_of c p inst = expectation_str x
          \<and> score_institution t r inst (Some c) (Some p) cnt =
              (if expected_holds x r t then cnt\<lparr>correct := correct cnt + 1\<rparr>
               else cnt\<lparr>wrong := wrong cnt + 1\<rparr>)"
    using score_institution_expected by blast
next
  show "score_date t r results cnts inst =
       (if inst \<in> {''CLIENT'', ''PRO'', ''FII''}
        then score_institution t r inst
               (map_option final_strength (inst_result results inst ''Call Options''))
               (map_option final_strength (inst_result results inst ''Put Options''))
               (cnts inst)
        else cnts inst)"
    using score_date_institution [of t r results cnts inst] by (simp add: institutions_def)
next
  show "accuracy_counts t [] = Inr (\<lambda>inst. zero_counts)"
    by (simp add: accuracy_counts_def)
next
  show "accuracy_counts t (days @ [(cur, nxt, results)]) =
       (case accuracy_counts t days of
          Inl e \<Rightarrow> Inl e
        | Inr cs \<Rightarrow> if cur = 0 then Inl ZeroDivisionError
                    else Inr (score_date t ((nxt - cur) / cur * 100) results cs))"
    unfolding accuracy_counts_def by (rule date_loop_snoc)
next
  assume nz: "\<forall>day \<in> set days. fst day \<noteq> 0"
  from date_loop_returns [OF nz] obtain c2 c3 c4 where
    c: "accuracy_counts (2 / 10) days = Inr c2" "accuracy_counts (3 / 10) days = Inr c3"
       "accuracy_counts (4 / 10) days = Inr c4"
    unfolding accuracy_counts_def by metis
  then have "accuracy_summary days =
      Inr [(2 / 10, report_lines c2), (3 / 10, report_lines c3), (4 / 10, report_lines c4)]"
    by (simp add: accuracy_summary_rounds)
  with c show "\<exists>c2 c3 c4.
            accuracy_counts (2 / 10) days = Inr c2
          \<and> accuracy_counts (3 / 10) days = Inr c3
          \<and> accuracy_counts (4 / 10) days = Inr c4
          \<and> accuracy_summary days =
              Inr (map (\<lambda>(threshold, cs).
                          (threshold,
                           map (\<lambda>i. (i, correct (cs i), wrong (cs i), indecisive (cs i),
                                      if correct (cs i) + wrong (cs i) = 0 then 0
                                      else real (correct (cs i))
                                             / real (correct (cs i) + wrong (cs i)) * 100))
                               [''CLIENT'', ''PRO'', ''FII'']))
                       [(2 / 10, c2), (3 / 10, c3), (4 / 10, c4)])"
    by (simp add: report_lines_eq)
next
  assume z: "\<exists>day \<in> set days. fst day = 0"
  then show "accuracy_counts t days = Inl ZeroDivisionError"
    unfolding accuracy_counts_def by (rule date_loop_raises)
next
  assume z: "\<exists>day \<in> set days. fst day = 0"
  then have "accuracy_counts (2 / 10) days = Inl ZeroDivisionError"
    unfolding accuracy_counts_def by (rule date_loop_raises)
  then show "accuracy_summary days = Inl ZeroDivisionError"
    by (simp add: accuracy_summary_rounds)
qed

theorem backtest_scoring_witness:
  "exp_str_of ''MEDIUM BULLISH'' ''MEDIUM BEARISH'' ''CLIENT'' = ''FLAT''
   \<and> score_institution (2 / 10) (3 / 10) ''CLIENT'' (Some ''MEDIUM BULLISH'')
        (Some ''MEDIUM BEARISH'') zero_counts = \<lparr>correct = 0, wrong = 1, indecisive = 0\<rparr>
   \<and> exp_str_of ''MILD BULLISH'' ''MILD BEARISH'' ''FII'' = ''''
   \<and> score_institution (3 / 10) (1 / 2) ''FII'' (Some ''MILD BULLISH'') (Some ''MILD BEARISH'')
        zero_counts = \<lparr>correct = 0, wrong = 0, indecisive = 1\<rparr>
   \<and> accuracy_summary
        [(1000, 1003,
          [\<lparr>res_institution = ''CLIENT'', res_segment = ''Call Options'', res_net_oi = 5,
            res_change = 1, final_strength = ''MEDIUM BULLISH''\<rparr>,
           \<lparr>res_institution = ''CLIENT'', res_segment = ''Put Options'', res_net_oi = 4,
            res_change = 1, final_strength = ''MEDIUM BEARISH''\<rparr>])]
       = Inr [(2 / 10, [(''CLIENT'', 0, 1, 0, 0), (''PRO'', 0, 0, 0, 0), (''FII'', 0, 0, 0, 0)]),
              (3 / 10, [(''CLIENT'', 1, 0, 0, 100), (''PRO'', 0, 0, 0, 0), (''FII'', 0, 0, 0, 0)]),
              (4 / 10, [(''CLIENT'', 1, 0, 0, 100), (''PRO'', 0, 0, 0, 0), (''FII'', 0, 0, 0, 0)])]
   \<and> accuracy_summary [(0, 1003, [])] = Inl ZeroDivisionError"
proof -
  let ?call = "\<lparr>res_institution = ''CLIENT'', res_segment = ''Call Options'', res_net_oi = 5,
            res_change = 1, final_strength = ''MEDIUM BULLISH''\<rparr>"
  let ?put = "\<lparr>res_institution = ''CLIENT'', res_segment = ''Put Options'', res_net_oi = 4,
            res_change = 1, final_strength = ''MEDIUM BEARISH''\<rparr>"
  let ?days = "[(1000 :: real, 1003 :: real, [?call, ?put])]"
  have e1: "exp_str_of ''MEDIUM BULLISH'' ''MEDIUM BEARISH'' ''CLIENT'' = ''FLAT''"
    by (simp add: exp_str_of_def expectations_def exp_entry_def dict_get_def)
  have e2: "exp_str_of ''MILD BULLISH'' ''MILD BEARISH'' ''FII'' = ''''"
    by (simp add: exp_str_of_def expectations_def exp_entry_def dict_get_def)
  have step: "score_institution t (3 / 10) ''CLIENT'' (Some ''MEDIUM BULLISH'')
                (Some ''MEDIUM BEARISH'') zero_counts =
              (if 3 / 10 \<le> t then \<lparr>correct = 1, wrong = 0, indecisive = 0\<rparr>
               else \<lparr>correct = 0, wrong = 1, indecisive = 0\<rparr>)" for t :: real
  proof -
    from e1 backtest_scoring [of "''MEDIUM BULLISH''" "''MEDIUM BEARISH''" "''CLIENT''" t "3 / 10"
                                 zero_counts "[]" "\<lambda>inst. zero_counts" "[]" 1 1]
    obtain x where x: "''FLAT'' = expectation_str x"
      and s: "score_institution t (3 / 10) ''CLIENT'' (Some ''MEDIUM BULLISH'')
                (Some ''MEDIUM BEARISH'') zero_counts =
                (if expected_holds x (3 / 10) t then zero_counts\<lparr>correct := correct zero_counts + 1\<rparr>
                 else zero_counts\<lparr>wrong := wrong zero_counts + 1\<rparr>)"
      by auto
    from x have "expectation_str x = expectation_str FLAT" by simp
    then have "x = FLAT" by (rule expectation_str_inj)
    with s show ?thesis by (simp add: zero_counts_def)
  qed
  have none: "score_institution t r inst None None cnt = cnt" for t r inst cnt
    by (simp add: score_institution_def)
  have date: "score_date t (3 / 10) [?call, ?put] (\<lambda>inst. zero_counts) =
      (\<lambda>inst. if inst = ''CLIENT''
               then (if 3 / 10 \<le> t then \<lparr>correct = 1, wrong = 0, indecisive = 0\<rparr>
                     else \<lparr>correct = 0, wrong = 1, indecisive = 0\<rparr>)
               else zero_counts)" for t :: real
  proof
    fix inst
    show "score_date t (3 / 10) [?call, ?put] (\<lambda>inst. zero_counts) inst =
      (if inst = ''CLIENT''
               then (if 3 / 10 \<le> t then \<lparr>correct = 1, wrong = 0, indecisive = 0\<rparr>
                     else \<lparr>correct = 0, wrong = 1, indecisive = 0\<rparr>)
               else zero_counts)"
      using backtest_scoring [of "''MEDIUM BULLISH''" "''MEDIUM BEARISH''" inst t "3 / 10"
                                 zero_counts "[?call, ?put]" "\<lambda>inst. zero_counts" "[]" 1 1]
      by (simp add: inst_result_def step none)
  qed
  have round: "accuracy_counts t ?days =
      Inr (\<lambda>inst. if inst = ''CLIENT''
               then (if 3 / 10 \<le> t then \<lparr>correct = 1, wrong = 0, indecisive = 0\<rparr>
                     else \<lparr>correct = 0, wrong = 1, indecisive = 0\<rparr>)
               else zero_counts)" for t :: real
    using backtest_scoring [of "''MEDIUM BULLISH''" "''MEDIUM BEARISH''" "''CLIENT''" t "3 / 10"
                               zero_counts "[?call, ?put]" "\<lambda>inst. zero_counts" "[]" 1000 1003]
    by (simp add: date)
  have nz: "\<forall>day \<in> set ?days. fst day \<noteq> 0" by simp
  have summary: "accuracy_summary ?days
       = Inr [(2 / 10, [(''CLIENT'', 0, 1, 0, 0), (''PRO'', 0, 0, 0, 0), (''FII'', 0, 0, 0, 0)]),
              (3 / 10, [(''CLIENT'', 1, 0, 0, 100), (''PRO'', 0, 0, 0, 0), (''FII'', 0, 0, 0, 0)]),
              (4 / 10, [(''CLIENT'', 1, 0, 0, 100), (''PRO'', 0, 0, 0, 0), (''FII'', 0, 0, 0, 0)])]"
    using nz backtest_scoring [of "''MEDIUM BULLISH''" "''MEDIUM BEARISH''" "''CLIENT''" 1 1
                               zero_counts "[]" "\<lambda>inst. zero_counts" ?days 1 1]
    by (simp add: round zero_counts_def)
  have zero: "accuracy_summary [(0, 1003, [])] = Inl ZeroDivisionError"
    using backtest_scoring [of "''MEDIUM BULLISH''" "''MEDIUM BEARISH''" "''CLIENT''" 1 1
                               zero_counts "[]" "\<lambda>inst. zero_counts" "[(0, 1003, [])]" 1 1]
    by simp
  have s2: "score_institution (3 / 10) (1 / 2) ''FII'' (Some ''MILD BULLISH'') (Some ''MILD BEARISH'')
        zero_counts = \<lparr>correct = 0, wrong = 0, indecisive = 1\<rparr>"
    using e2 backtest_scoring [of "''MILD BULLISH''" "''MILD BEARISH''" "''FII''" "3 / 10" "1 / 2"
                               zero_counts "[]" "\<lambda>inst. zero_counts" "[]" 1 1]
    by (simp add: zero_counts_def)
  from e1 e2 step [of "2 / 10"] s2 summary zero show ?thesis by simp
qed

section \<open>Properties of the window strategies\<close>

lemma descending_take_drop:
  assumes "sorted (rev ds)" "distinct ds" "x \<in> set (take n ds)" "y \<in> set (drop n ds)"
  shows "y < (x :: int)"
proof -
  have "rev ds = rev (drop n ds) @ rev (take n ds)"
    by (metis append_take_drop_id rev_append)
  with assms(1) have "sorted (rev (drop n ds) @ rev (take n ds))" by simp
  then have "\<forall>a \<in> set (rev (drop n ds)). \<forall>b \<in> set (rev (take n ds)). a \<le> b"
    by (simp add: sorted_append)
  with assms(3,4) have le: "y \<le> x" by simp
  have "distinct (take n ds @ drop n ds)" using assms(2) by simp
  then have "set (take n ds) \<inter> set (drop n ds) = {}" by (simp only: distinct_append)
  with assms(3,4) have "y \<noteq> x" by blast
  with le show ?thesis by simp
qed

lemma descending_take_iff:
  assumes s: "sorted (rev ds)" and d: "distinct ds"
  shows "x \<in> set (take n ds) \<longleftrightarrow> x \<in> set ds \<and> card {y \<in> set ds. (x :: int) < y} < n"
proof
  assume x: "x \<in> set (take n ds)"
  have sub: "{y \<in> set ds. x < y} \<subseteq> set (take n ds) - {x}"
  proof
    fix y assume "y \<in> {y \<in> set ds. x < y}"
    then have y: "y \<in> set ds" "x < y" by simp_all
    have "y \<in> set (take n ds)"
    proof (rule ccontr)
      assume "y \<notin> set (take n ds)"
      with y(1) have "y \<in> set (drop n ds)"
        by (metis Un_iff append_take_drop_id set_append)
      with s d x have "y < x" by (rule descending_take_drop)
      with y(2) show False by simp
    qed
    with y(2) show "y \<in> set (take n ds) - {x}" by simp
  qed
  have "card {y \<in> set ds. x < y} \<le> card (set (take n ds) - {x})"
    using sub by (intro card_mono) simp_all
  also have "\<dots> < card (set (take n ds))"
    using x by (intro card_Diff1_less) simp_all
  also have "\<dots> \<le> length (take n ds)" by (rule card_length)
  also have "\<dots> \<le> n" by simp
  finally have "card {y \<in> set ds. x < y} < n" .
  with x show "x \<in> set ds \<and> card {y \<in> set ds. x < y} < n"
    by (auto dest: in_set_takeD)
next
  assume a: "x \<in> set ds \<and> card {y \<in> set ds. x < y} < n"
  show "x \<in> set (take n ds)"
  proof (rule ccontr)
    assume "x \<notin> set (take n ds)"
    with a have xd: "x \<in> set (drop n ds)"
      by (metis Un_iff append_take_drop_id set_append)
    then have "drop n ds \<noteq> []" by auto
    then have len: "length (take n ds) = n" by simp
    have "set (take n ds) \<subseteq> {y \<in> set ds. x < y}"
    proof
      fix y assume y: "y \<in> set (take n ds)"
      with s d have "x < y" using xd by (rule descending_take_drop)
      with y show "y \<in> {y \<in> set ds. x < y}" by (auto dest: in_set_takeD)
    qed
    then have "card (set (take n ds)) \<le> card {y \<in> set ds. x < y}"
      by (intro card_mono) simp_all
    moreover have "card (set (take n ds)) = n"
      using d len by (simp add: distinct_card)
    ultimately show False using a by simp
  qed
qed

lemma lookback_dates_take:
  "lookback_dates df target n
     = take n (rev (sort (remdups (map date (filter (\<lambda>r. date r \<le> target) df)))))"
  by (simp add: lookback_dates_def Let_def)

lemma lookback_dates_iff:
  "x \<in> set (lookback_dates df target n) \<longleftrightarrow>
     x \<in> date ` set df \<and> x \<le> target \<and> card {y \<in> date ` set df. x < y \<and> y \<le> target} < n"
proof -
  let ?ds = "rev (sort (remdups (map date (filter (\<lambda>r. date r \<le> target) df))))"
  have ds: "sorted (rev ?ds)" "distinct ?ds" by simp_all
  have set_ds: "set ?ds = {y \<in> date ` set df. y \<le> target}" by auto
  have "{y \<in> set ?ds. x < y} = {y \<in> date ` set df. x < y \<and> y \<le> target}"
    unfolding set_ds by auto
  with descending_take_iff [OF ds, of x n] set_ds show ?thesis
    unfolding lookback_dates_take by auto
qed

lemma all_dates_take_iff:
  "x \<in> set (take n (all_dates df)) \<longleftrightarrow>
     x \<in> date ` set df \<and> card {y \<in> date ` set df. x < y} < n"
proof -
  have ds: "sorted (rev (all_dates df))" "distinct (all_dates df)"
    by (simp_all add: all_dates_def)
  have set_ds: "set (all_dates df) = date ` set df" by (simp add: all_dates_def)
  from descending_take_iff [OF ds, of x n] show ?thesis unfolding set_ds .
qed

lemma rolling_sample_iff:
  "r \<in> set (rolling_sample df target n inst col) \<longleftrightarrow>
     r \<in> set df \<and> institution r = inst \<and> col r \<noteq> None \<and> date r \<le> target
     \<and> card {y \<in> date ` set df. date r < y \<and> y \<le> target} < n"
  by (auto simp: rolling_sample_def dropna_def historical_data_def lookback_dates_iff)

lemma accuracy_sample_iff:
  "r \<in> set (accuracy_sample df n inst col) \<longleftrightarrow>
     r \<in> set df \<and> institution r = inst \<and> col r \<noteq> None
     \<and> card {y \<in> date ` set df. date r < y} < n"
  by (auto simp: accuracy_sample_def dropna_def accuracy_historical_data_def all_dates_take_iff)

lemma later_date_in_window:
  assumes "d \<in> set (take n (all_dates df))" "y \<in> date ` set df" "d < y"
  shows "y \<in> set (take n (all_dates df))"
proof (rule ccontr)
  assume "y \<notin> set (take n (all_dates df))"
  moreover from assms(2) have "y \<in> set (all_dates df)" by (simp add: all_dates_def)
  ultimately have "y \<in> set (drop n (all_dates df))"
    by (metis Un_iff append_take_drop_id set_append)
  moreover have "sorted (rev (all_dates df))" "distinct (all_dates df)"
    by (simp_all add: all_dates_def)
  ultimately have "y < d" using assms(1) descending_take_drop by blast
  with assms(3) show False by simp
qed

lemma accuracy_sample_later_rows:
  assumes "d \<in> set (analysis_dates df n)"
    and "r \<in> set df" "institution r = inst" "col r \<noteq> None" "d < date r"
  shows "r \<in> set (accuracy_sample df n inst col)"
proof -
  from assms(1) have "d \<in> set (take n (all_dates df))"
    unfolding analysis_dates_def by (rule in_set_dropD)
  moreover from assms(2) have "date r \<in> date ` set df" by simp
  ultimately have "date r \<in> set (take n (all_dates df))"
    using assms(5) by (rule later_date_in_window)
  with assms(2,3,4) show ?thesis
    by (simp add: accuracy_sample_def dropna_def accuracy_historical_data_def)
qed

lemma analysis_dates_iff:
  "d \<in> set (analysis_dates df n) \<longleftrightarrow>
     d \<in> date ` set df \<and> 0 < card {y \<in> date ` set df. d < y}
     \<and> card {y \<in> date ` set df. d < y} < n"
proof -
  let ?ds = "all_dates df"
  define k where "k = card {y \<in> date ` set df. d < y}"
  have dist: "distinct (take n ?ds)" by (simp add: all_dates_def)
  have split: "take n ?ds = take 1 (take n ?ds) @ drop 1 (take n ?ds)"
    by (rule append_take_drop_id [symmetric])
  have disj: "set (take 1 (take n ?ds)) \<inter> set (drop 1 (take n ?ds)) = {}"
    using dist split by (metis distinct_append)
  have un: "set (take n ?ds) = set (take 1 (take n ?ds)) \<union> set (drop 1 (take n ?ds))"
    using split by (metis set_append)
  have t1: "take 1 (take n ?ds) = take (min 1 n) ?ds" by (simp add: min.commute)
  have "d \<in> set (drop 1 (take n ?ds)) \<longleftrightarrow>
          d \<in> set (take n ?ds) \<and> d \<notin> set (take (min 1 n) ?ds)"
    using disj un unfolding t1 by blast
  also have "\<dots> \<longleftrightarrow> d \<in> date ` set df \<and> k < n \<and> \<not> k < min 1 n"
    unfolding all_dates_take_iff k_def by blast
  also have "\<dots> \<longleftrightarrow> d \<in> date ` set df \<and> 0 < k \<and> k < n"
    by auto
  finally show ?thesis by (simp add: analysis_dates_def k_def)
qed

lemma analysis_dates_oldest_first:
  "sorted (rev (analysis_dates df n))" "distinct (rev (analysis_dates df n))"
proof -
  have "sorted (rev (all_dates df))" by (simp add: all_dates_def)
  then have "sorted (drop (length (all_dates df) - n) (rev (all_dates df)))"
    by (rule sorted_wrt_drop)
  then have "sorted (rev (take n (all_dates df)))" by (simp add: rev_take)
  then have "sorted (take (length (take n (all_dates df)) - 1) (rev (take n (all_dates df))))"
    by (rule sorted_wrt_take)
  then show "sorted (rev (analysis_dates df n))"
    unfolding analysis_dates_def by (simp only: rev_drop)
  show "distinct (rev (analysis_dates df n))"
    by (simp add: analysis_dates_def all_dates_def)
qed

lemma applied_samples_dates:
  "map fst (accuracy_applied_samples df n inst col) = rev (analysis_dates df n)"
  by (simp add: accuracy_applied_samples_def Let_def comp_def)

lemma call_row_fields:
  "date (call_row d inst v) = d" "institution (call_row d inst v) = inst"
  "CALL_OI (call_row d inst v) = Some v"
  by (simp_all add: call_row_def)

text \<open>
  Claim C4, as amended. The per-date rolling window is what \<open>calculate_strength_for_date\<close>
  of custom_percentile_method_2.py builds for its target date: a row is behind a sample of an
  institution and a column exactly when it is a row of that institution with a value in the
  column, dated at or before the target, with fewer than \<open>N\<close> distinct dates of the frame
  after it and up to the target; so the sample holds data of the \<open>N\<close> most recent distinct
  trading dates at or before the target and of no later date. The backtest
  \<open>calculate_accuracy_summary\<close> does not use it: its scored dates are, oldest first, the
  dates of the frame with at least one and fewer than \<open>N\<close> later dates in the frame, and
  every one of them is paired with one and the same sample, whose rows are exactly the rows
  of the institution with a value in the column and with fewer than \<open>N\<close> distinct dates of
  the whole frame after them; that sample does not depend on the scored date and holds
  every such row of the institution dated after the scored date.
\<close>

theorem window_strategies:
  "(r \<in> set (rolling_sample df target n inst col) \<longleftrightarrow>
      r \<in> set df \<and> institution r = inst \<and> col r \<noteq> None \<and> date r \<le> target
      \<and> card {y \<in> date ` set df. date r < y \<and> y \<le> target} < n)
   \<and> sorted (map fst (accuracy_applied_samples df n inst col))
   \<and> distinct (map fst (accuracy_applied_samples df n inst col))
   \<and> (d \<in> set (map fst (accuracy_applied_samples df n inst col)) \<longleftrightarrow>
        d \<in> date ` set df \<and> 0 < card {y \<in> date ` set df. d < y}
        \<and> card {y \<in> date ` set df. d < y} < n)
   \<and> (\<forall>ds \<in> set (accuracy_applied_samples df n inst col).
        (r \<in> set (snd ds) \<longleftrightarrow>
           r \<in> set df \<and> institution r = inst \<and> col r \<noteq> None
           \<and> card {y \<in> date ` set df. date r < y} < n)
        \<and> (r \<in> set df \<and> institution r = inst \<and> col r \<noteq> None \<and> fst ds < date r
             \<longrightarrow> r \<in> set (snd ds)))"
proof (intro conjI ballI)
  show "r \<in> set (rolling_sample df target n inst col) \<longleftrightarrow>
      r \<in> set df \<and> institution r = inst \<and> col r \<noteq> None \<and> date r \<le> target
      \<and> card {y \<in> date ` set df. date r < y \<and> y \<le> target} < n"
    by (rule rolling_sample_iff)
next
  show "sorted (map fst (accuracy_applied_samples df n inst col))"
    unfolding applied_samples_dates by (rule analysis_dates_oldest_first)
next
  show "distinct (map fst (accuracy_applied_samples df n inst col))"
    unfolding applied_samples_dates by (rule analysis_dates_oldest_first)
next
  show "d \<in> set (map fst (accuracy_applied_samples df n inst col)) \<longleftrightarrow>
        d \<in> date ` set df \<and> 0 < card {y \<in> date ` set df. d < y}
        \<and> card {y \<in> date ` set df. d < y} < n"
    unfolding applied_samples_dates using analysis_dates_iff [of d df n] by simp
next
  fix ds assume "ds \<in> set (accuracy_applied_samples df n inst col)"
  then have s: "snd ds = accuracy_sample df n inst col"
    by (auto simp: accuracy_applied_samples_def Let_def)
  show "r \<in> set (snd ds) \<longleftrightarrow>
           r \<in> set df \<and> institution r = inst \<and> col r \<noteq> None
           \<and> card {y \<in> date ` set df. date r < y} < n"
    unfolding s by (rule accuracy_sample_iff)
next
  fix ds assume m: "ds \<in> set (accuracy_applied_samples df n inst col)"
  then have s: "snd ds = accuracy_sample df n inst col"
    and d: "fst ds \<in> set (analysis_dates df n)"
    by (auto simp: accuracy_applied_samples_def Let_def)
  show "r \<in> set df \<and> institution r = inst \<and> col r \<noteq> None \<and> fst ds < date r
             \<longrightarrow> r \<in> set (snd ds)"
    unfolding s using accuracy_sample_later_rows [OF d] by blast
qed

theorem window_strategies_witness:
  "call_row 2 ''FII'' 20
     \<in> set (rolling_sample [call_row 1 ''FII'' 10, call_row 2 ''FII'' 20, call_row 3 ''FII'' 30,
                             call_row 4 ''CLIENT'' 5] 3 2 ''FII'' CALL_OI)
   \<and> date (call_row 2 ''FII'' 20) \<le> 3
   \<and> card {y \<in> date ` set [call_row 1 ''FII'' 10, call_row 2 ''FII'' 20, call_row 3 ''FII'' 30,
                              call_row 4 ''CLIENT'' 5].
             date (call_row 2 ''FII'' 20) < y \<and> y \<le> 3} < 2
   \<and> map fst (accuracy_applied_samples [call_row 1 ''FII'' 10, call_row 2 ''FII'' 20,
                  call_row 3 ''FII'' 30, call_row 4 ''CLIENT'' 5] 3 ''FII'' CALL_OI) = [2, 3]
   \<and> (2, [call_row 2 ''FII'' 20, call_row 3 ''FII'' 30])
        \<in> set (accuracy_applied_samples [call_row 1 ''FII'' 10, call_row 2 ''FII'' 20,
                  call_row 3 ''FII'' 30, call_row 4 ''CLIENT'' 5] 3 ''FII'' CALL_OI)
   \<and> fst (2 :: int, [call_row 2 ''FII'' 20, call_row 3 ''FII'' 30]) < date (call_row 3 ''FII'' 30)
   \<and> call_row 3 ''FII'' 30 \<in> set (snd (2 :: int, [call_row 2 ''FII'' 20, call_row 3 ''FII'' 30]))"
proof -
  let ?df = "[call_row 1 ''FII'' 10, call_row 2 ''FII'' 20, call_row 3 ''FII'' 30,
              call_row 4 ''CLIENT'' 5]"
  have l: "lookback_dates ?df 3 2 = [3, 2]"
    by (simp add: lookback_dates_def call_row_fields)
  have m: "call_row 2 ''FII'' 20 \<in> set (rolling_sample ?df 3 2 ''FII'' CALL_OI)"
    by (simp add: rolling_sample_def dropna_def historical_data_def l call_row_fields)
  have a: "all_dates ?df = [4, 3, 2, 1]"
    by (simp add: all_dates_def call_row_fields)
  have s: "accuracy_sample ?df 3 ''FII'' CALL_OI = [call_row 2 ''FII'' 20, call_row 3 ''FII'' 30]"
    by (simp add: accuracy_sample_def dropna_def accuracy_historical_data_def a call_row_fields)
  have ap: "accuracy_applied_samples ?df 3 ''FII'' CALL_OI
              = [(2, [call_row 2 ''FII'' 20, call_row 3 ''FII'' 30]),
                 (3, [call_row 2 ''FII'' 20, call_row 3 ''FII'' 30])]"
    by (simp add: accuracy_applied_samples_def analysis_dates_def a s Let_def)
  have in_df: "call_row 3 ''FII'' 30 \<in> set ?df" by simp
  have props: "institution (call_row 3 ''FII'' 30) = ''FII''"
    "CALL_OI (call_row 3 ''FII'' 30) \<noteq> None"
    by (simp_all add: call_row_fields)
  from m window_strategies [of "call_row 2 ''FII'' 20" ?df 3 2 "''FII''" CALL_OI]
  have r: "date (call_row 2 ''FII'' 20) \<le> 3
     \<and> card {y \<in> date ` set ?df. date (call_row 2 ''FII'' 20) < y \<and> y \<le> 3} < 2"
    by blast
  from in_df props window_strategies [of "call_row 3 ''FII'' 30" ?df 3 3 "''FII''" CALL_OI]
  have b: "\<forall>ds \<in> set (accuracy_applied_samples ?df 3 ''FII'' CALL_OI).
         fst ds < date (call_row 3 ''FII'' 30) \<longrightarrow> call_row 3 ''FII'' 30 \<in> set (snd ds)"
    by blast
  have f4: "map fst (accuracy_applied_samples ?df 3 ''FII'' CALL_OI) = [2, 3]"
    by (simp add: ap)
  have f6: "(2, [call_row 2 ''FII'' 20, call_row 3 ''FII'' 30])
              \<in> set (accuracy_applied_samples ?df 3 ''FII'' CALL_OI)"
    by (simp add: ap)
  have lt: "fst (2 :: int, [call_row 2 ''FII'' 20, call_row 3 ''FII'' 30])
              < date (call_row 3 ''FII'' 30)"
    by (simp add: call_row_fields)
  from b f6 lt
  have f7: "call_row 3 ''FII'' 30
              \<in> set (snd (2 :: int, [call_row 2 ''FII'' 20, call_row 3 ''FII'' 30]))"
    by blast
  note r1 = conjunct1 [OF r] and r2 = conjunct2 [OF r]
  show ?thesis by (intro conjI) (rule m r1 r2 f4 f6 lt f7)+
qed

text \<open>
  The claim as stated (the sample behind the thresholds applied to a scored date holds no
  data from later dates) is false of the backtest: on a frame with rows of FII on the dates
  1, 2 and 3 and a lookback of 60, date 2 is scored with an FII call sample that holds the
  row of date 3.
\<close>

theorem backtest_look_ahead_counterexample:
  "(2, [call_row 1 ''FII'' 10, call_row 2 ''FII'' 20, call_row 3 ''FII'' 30])
     \<in> set (accuracy_applied_samples
              [call_row 1 ''FII'' 10, call_row 2 ''FII'' 20, call_row 3 ''FII'' 30]
              60 ''FII'' CALL_OI)
   \<and> date (call_row 3 ''FII'' 30) = 3
   \<and> \<not> (\<forall>ds \<in> set (accuracy_applied_samples
                      [call_row 1 ''FII'' 10, call_row 2 ''FII'' 20, call_row 3 ''FII'' 30]
                      60 ''FII'' CALL_OI).
          \<forall>r \<in> set (snd ds). date r \<le> fst ds)"
proof -
  let ?df = "[call_row 1 ''FII'' 10, call_row 2 ''FII'' 20, call_row 3 ''FII'' 30]"
  have a: "all_dates ?df = [3, 2, 1]"
    by (simp add: all_dates_def call_row_fields)
  have s: "accuracy_sample ?df 60 ''FII'' CALL_OI = ?df"
    by (simp add: accuracy_sample_def dropna_def accuracy_historical_data_def a call_row_fields)
  have ap: "accuracy_applied_samples ?df 60 ''FII'' CALL_OI = [(1, ?df), (2, ?df)]"
    by (simp add: accuracy_applied_samples_def analysis_dates_def a s Let_def)
  have d: "date (call_row 3 ''FII'' 30) = 3" "date (call_row 2 ''FII'' 20) = 2"
    "date (call_row 1 ''FII'' 10) = 1"
    by (simp_all add: call_row_fields)
  show ?thesis by (simp add: ap d)
qed

end
